theory Spec2Isabelle
  imports Main "HOL-Library.AList" "HOL-Library.Multiset"
begin

section \<open>The forum backend of server.js: two persistence variants\<close>

text \<open>
  server.js holds two variants of the same REST backend. The first (lines 1-281) keeps
  personas, posts and comments in three SQLite tables; the second (lines 282-487) keeps
  them in a key-value store under the keys \<^verbatim>\<open>persona:<id>\<close>,
  \<^verbatim>\<open>persona_name:<lowercased name>\<close>, \<^verbatim>\<open>post:<id>\<close> and
  \<^verbatim>\<open>comment_post:<post id>:<comment id>\<close>.

  Every handler is embedded as a function from the store to a response and the new store.
  The clock readings a handler takes (\<^verbatim>\<open>Date.now()\<close>, \<^verbatim>\<open>nowIso()\<close>,
  \<^verbatim>\<open>datetime('now')\<close>) are arguments, and so are the built-ins of JavaScript that the
  handlers call on strings. Instants are natural numbers; an ISO string is never empty, so
  a stored instant is truthy and \<open>None\<close> is \<^verbatim>\<open>null\<close>. Strings are byte lists
  (UTF-8), identifiers are unbounded naturals.
\<close>

subsection \<open>Values\<close>

type_synonym instant = nat

text \<open>The result of \<^verbatim>\<open>Number(x)\<close>: \<open>NaN\<close> stands for every value that is not finite;
  negative and fractional numbers, which match no stored identifier, are left out.\<close>

datatype num = NaN | Num nat

text \<open>A field of a JSON answer that holds a string, \<^verbatim>\<open>null\<close> or \<^verbatim>\<open>undefined\<close>.\<close>

datatype jsval = JUndefined | JNull | JStr string

datatype error =
    BAD_ID | NOT_FOUND | NAME_REQUIRED | NAME_RESERVED | AVATAR_URL_INVALID | NAME_EXISTS
  | SERVER_ERROR | PERSONA_REQUIRED | CONTENT_REQUIRED | IMAGE_URL_INVALID | PERSONA_NOT_FOUND
  | POST_ID_REQUIRED | BAD_REPLY_TO | POST_NOT_FOUND | REPLY_TARGET_INVALID | MISSING_FIELDS

text \<open>\<^verbatim>\<open>res.status(s).json({error: e})\<close> is \<open>Inl (s, e)\<close>; a successful answer is \<open>Inr\<close>.\<close>

type_synonym 'a response = "(nat \<times> error) + 'a"

record persona =
  ps_id :: nat
  ps_name :: string
  ps_avatar_url :: "string option"
  ps_bio :: "string option"
  ps_creator :: "string option"
  ps_deleted_at :: "instant option"

record post =
  po_id :: nat
  po_persona_id :: "nat option"
  po_content :: string
  po_image_url :: "string option"
  po_created_at :: instant
  po_deleted_at :: "instant option"

record comment =
  co_id :: nat
  co_post_id :: nat
  co_persona_id :: "nat option"
  co_content :: string
  co_reply_to_comment_id :: "num option"
  co_created_at :: instant
  co_deleted_at :: "instant option"

text \<open>The rows the read handlers answer with. \<open>persona_deleted\<close> is 1/0 in the SQLite
  variant and a boolean in the key-value variant; both are \<open>bool\<close> here.\<close>

record post_view =
  pv_id :: nat
  pv_content :: string
  pv_image_url :: "string option"
  pv_created_at :: instant
  pv_deleted_at :: "instant option"
  pv_persona_id :: "nat option"
  pv_persona_name :: string
  pv_persona_avatar_url :: jsval
  pv_persona_deleted :: bool

record post_row = post_view +
  pv_reply_count :: nat

record comment_view =
  cv_id :: nat
  cv_post_id :: nat
  cv_content :: string
  cv_created_at :: instant
  cv_deleted_at :: "instant option"
  cv_reply_to_comment_id :: "num option"
  cv_persona_id :: "nat option"
  cv_persona_name :: string
  cv_persona_avatar_url :: jsval
  cv_persona_deleted :: bool

text \<open>Request bodies. A text field is absent (\<open>None\<close>) or a string; \<open>cb_post_id\<close> is
  \<^verbatim>\<open>Number(req.body?.post_id)\<close>, \<open>cb_reply_to_comment_id\<close> is \<open>None\<close> when the field
  is \<^verbatim>\<open>null\<close> or missing and \<^verbatim>\<open>Number(...)\<close> of it otherwise.\<close>

record persona_body =
  pb_name :: "string option"
  pb_avatar_url :: "string option"
  pb_bio :: "string option"
  pb_creator :: "string option"

record post_body =
  tb_persona_name :: "string option"
  tb_content :: "string option"
  tb_image_url :: "string option"

record comment_body =
  cb_post_id :: num
  cb_persona_name :: "string option"
  cb_content :: "string option"
  cb_reply_to_comment_id :: "num option"

subsection \<open>Strings\<close>

text \<open>The built-ins that the handlers call and that server.js does not define:
  \<^verbatim>\<open>String.prototype.trim\<close>, \<^verbatim>\<open>String.prototype.toLowerCase\<close> (both follow Unicode)
  and the parser behind \<^verbatim>\<open>new URL(u)\<close>, of which \<open>js_url_protocol\<close> gives the protocol,
  or \<open>None\<close> when the constructor throws. Every handler takes them as an argument.\<close>

record js =
  js_trim :: "string \<Rightarrow> string"
  js_toLowerCase :: "string \<Rightarrow> string"
  js_url_protocol :: "string \<Rightarrow> string option"

text \<open>\<^verbatim>\<open>(req.body?.f || "").trim()\<close>\<close>

definition body_str :: "js \<Rightarrow> string option \<Rightarrow> string" where
  "body_str pf f = js_trim pf (case f of None \<Rightarrow> [] | Some s \<Rightarrow> s)"

text \<open>\<^verbatim>\<open>s || null\<close>\<close>

definition or_null :: "string \<Rightarrow> string option" where
  "or_null s = (if s = [] then None else Some s)"

text \<open>SQLite's \<^verbatim>\<open>NOCASE\<close> collation: it folds the 26 letters A-Z and compares every
  other byte as it is.\<close>

definition lower_char :: "char \<Rightarrow> char" where
  "lower_char c =
     (case map_of (zip ''ABCDEFGHIJKLMNOPQRSTUVWXYZ'' ''abcdefghijklmnopqrstuvwxyz'') c of
        None \<Rightarrow> c
      | Some l \<Rightarrow> l)"

definition nocase_fold :: "string \<Rightarrow> string" where
  "nocase_fold s = map lower_char s"

definition nocase_eq :: "string \<Rightarrow> string \<Rightarrow> bool" where
  "nocase_eq a b = (nocase_fold a = nocase_fold b)"

text \<open>The reserved persona name and the placeholder of the read handlers, as UTF-8 bytes.\<close>

definition reserved_name :: string where
  "reserved_name =
     [CHR 0xE6, CHR 0x9C, CHR 0xAA, CHR 0xE5, CHR 0x91, CHR 0xBD, CHR 0xE5, CHR 0x90, CHR 0x8D]"

definition deleted_persona :: string where
  "deleted_persona =
     [CHR 0xE5, CHR 0xB7, CHR 0xB2, CHR 0xE5, CHR 0x88, CHR 0xA0, CHR 0xE9, CHR 0x99, CHR 0xA4,
      CHR 0xE4, CHR 0xBA, CHR 0xBA, CHR 0xE8, CHR 0xAE, CHR 0xBE]"

text \<open>\<^verbatim>\<open>isProbablyHttpUrl\<close>\<close>

definition isProbablyHttpUrl :: "js \<Rightarrow> string \<Rightarrow> bool" where
  "isProbablyHttpUrl pf u =
     (if u = [] then False
      else case js_url_protocol pf u of
             None \<Rightarrow> False
           | Some protocol \<Rightarrow> protocol = ''http:'' \<or> protocol = ''https:'')"

subsection \<open>Sorting\<close>

text \<open>A stable insertion sort by a "may stand before" relation. \<^verbatim>\<open>Array.prototype.sort\<close>
  is stable, so with a comparator \<open>cmp\<close> it is \<open>js_sort cmp\<close>. SQL leaves the order of
  rows that tie on every \<^verbatim>\<open>ORDER BY\<close> term open; the model keeps them in scan order.\<close>

fun insert_by :: "('a \<Rightarrow> 'a \<Rightarrow> bool) \<Rightarrow> 'a \<Rightarrow> 'a list \<Rightarrow> 'a list" where
  "insert_by le x [] = [x]"
| "insert_by le x (y # ys) = (if le x y then x # y # ys else y # insert_by le x ys)"

definition sort_by :: "('a \<Rightarrow> 'a \<Rightarrow> bool) \<Rightarrow> 'a list \<Rightarrow> 'a list" where
  "sort_by le xs = foldr (insert_by le) xs []"

definition js_sort :: "('a \<Rightarrow> 'a \<Rightarrow> int) \<Rightarrow> 'a list \<Rightarrow> 'a list" where
  "js_sort cmp xs = sort_by (\<lambda>a b. cmp a b \<le> 0) xs"

subsection \<open>The SQLite variant\<close>

text \<open>The three tables in rowid order, and the \<^verbatim>\<open>sqlite_sequence\<close> counters of the
  \<^verbatim>\<open>AUTOINCREMENT\<close> keys.\<close>

record sql_db =
  personas :: "persona list"
  posts :: "post list"
  comments :: "comment list"
  seq_personas :: nat
  seq_posts :: nat
  seq_comments :: nat

definition sql_empty :: sql_db where
  "sql_empty = \<lparr>personas = [], posts = [], comments = [],
                 seq_personas = 0, seq_posts = 0, seq_comments = 0\<rparr>"

text \<open>\<^verbatim>\<open>INTEGER PRIMARY KEY AUTOINCREMENT\<close>: one more than the largest rowid the table
  has ever held.\<close>

definition next_rowid :: "nat \<Rightarrow> nat list \<Rightarrow> nat" where
  "next_rowid seq ids = Suc (fold max ids seq)"

text \<open>\<^verbatim>\<open>SELECT ... FROM personas WHERE id=?\<close> (the primary key: at most one row).\<close>

definition persona_by_id :: "sql_db \<Rightarrow> nat \<Rightarrow> persona option" where
  "persona_by_id db i = find (\<lambda>per. ps_id per = i) (personas db)"

text \<open>\<^verbatim>\<open>LEFT JOIN personas per ON per.id = p.persona_id\<close>\<close>

definition join_persona :: "sql_db \<Rightarrow> nat option \<Rightarrow> persona option" where
  "join_persona db pid = (case pid of None \<Rightarrow> None | Some i \<Rightarrow> persona_by_id db i)"

text \<open>\<^verbatim>\<open>SELECT id, deleted_at FROM personas WHERE name = ? COLLATE NOCASE\<close>, first row.\<close>

definition persona_by_name :: "sql_db \<Rightarrow> string \<Rightarrow> persona option" where
  "persona_by_name db n = find (\<lambda>per. nocase_eq (ps_name per) n) (personas db)"

definition post_by_id :: "sql_db \<Rightarrow> nat \<Rightarrow> post option" where
  "post_by_id db i = find (\<lambda>p. po_id p = i) (posts db)"

definition comment_by_id :: "sql_db \<Rightarrow> nat \<Rightarrow> comment option" where
  "comment_by_id db i = find (\<lambda>c. co_id c = i) (comments db)"

text \<open>The three persona columns of the read queries:
  \<^verbatim>\<open>COALESCE(per.name, '...')\<close>, and the two
  \<^verbatim>\<open>CASE WHEN per.deleted_at IS NOT NULL OR per.id IS NULL\<close> columns.\<close>

definition sql_persona_name :: "persona option \<Rightarrow> string" where
  "sql_persona_name per = (case per of None \<Rightarrow> deleted_persona | Some p \<Rightarrow> ps_name p)"

definition sql_persona_deleted :: "persona option \<Rightarrow> bool" where
  "sql_persona_deleted per =
     (case per of None \<Rightarrow> True | Some p \<Rightarrow> ps_deleted_at p \<noteq> None)"

definition sql_persona_avatar_url :: "persona option \<Rightarrow> jsval" where
  "sql_persona_avatar_url per =
     (if sql_persona_deleted per then JNull
      else case per of
             None \<Rightarrow> JNull
           | Some p \<Rightarrow> (case ps_avatar_url p of None \<Rightarrow> JNull | Some u \<Rightarrow> JStr u))"

text \<open>POST /api/personas (lines 81-100). The \<^verbatim>\<open>UNIQUE\<close> constraint of the \<open>name\<close>
  column has the default \<^verbatim>\<open>BINARY\<close> collation: it compares names byte by byte, over
  all rows, deleted or not.\<close>

definition sql_create_persona ::
  "js \<Rightarrow> persona_body \<Rightarrow> sql_db \<Rightarrow> nat response \<times> sql_db" where
  "sql_create_persona pf body db =
     (let name = body_str pf (pb_name body);
          avatar_url = body_str pf (pb_avatar_url body);
          bio = body_str pf (pb_bio body);
          creator = body_str pf (pb_creator body)
      in if name = [] then (Inl (400, NAME_REQUIRED), db)
         else if name = reserved_name then (Inl (400, NAME_RESERVED), db)
         else if avatar_url \<noteq> [] \<and> \<not> isProbablyHttpUrl pf avatar_url
           then (Inl (400, AVATAR_URL_INVALID), db)
         else if name \<in> set (map ps_name (personas db)) then (Inl (409, NAME_EXISTS), db)
         else let i = next_rowid (seq_personas db) (map ps_id (personas db))
              in (Inr i,
                  db\<lparr>personas := personas db @
                        [\<lparr>ps_id = i, ps_name = name, ps_avatar_url = or_null avatar_url,
                          ps_bio = or_null bio, ps_creator = or_null creator,
                          ps_deleted_at = None\<rparr>],
                     seq_personas := i\<rparr>))"

text \<open>DELETE /api/personas/:id (lines 103-113).\<close>

definition sql_delete_persona :: "num \<Rightarrow> instant \<Rightarrow> sql_db \<Rightarrow> unit response \<times> sql_db" where
  "sql_delete_persona rid now db =
     (case rid of
        NaN \<Rightarrow> (Inl (400, BAD_ID), db)
      | Num i \<Rightarrow>
          (case persona_by_id db i of
             None \<Rightarrow> (Inl (404, NOT_FOUND), db)
           | Some persona \<Rightarrow>
               if ps_deleted_at persona \<noteq> None then (Inr (), db)
               else (Inr (),
                     db\<lparr>personas :=
                          map (\<lambda>per. if ps_id per = i then per\<lparr>ps_deleted_at := Some now\<rparr>
                                     else per) (personas db)\<rparr>)))"

text \<open>GET /api/posts (lines 116-150).\<close>

definition sql_reply_count :: "sql_db \<Rightarrow> nat \<Rightarrow> nat" where
  "sql_reply_count db pid =
     length (filter (\<lambda>c. co_post_id c = pid \<and> co_deleted_at c = None) (comments db))"

definition sql_post_view :: "sql_db \<Rightarrow> post \<Rightarrow> post_view" where
  "sql_post_view db p =
     (let per = join_persona db (po_persona_id p)
      in \<lparr>pv_id = po_id p, pv_content = po_content p, pv_image_url = po_image_url p,
          pv_created_at = po_created_at p, pv_deleted_at = po_deleted_at p,
          pv_persona_id = po_persona_id p, pv_persona_name = sql_persona_name per,
          pv_persona_avatar_url = sql_persona_avatar_url per,
          pv_persona_deleted = sql_persona_deleted per\<rparr>)"

definition sql_post_row :: "sql_db \<Rightarrow> post \<Rightarrow> post_row" where
  "sql_post_row db p =
     (let per = join_persona db (po_persona_id p)
      in \<lparr>pv_id = po_id p, pv_content = po_content p, pv_image_url = po_image_url p,
          pv_created_at = po_created_at p, pv_deleted_at = po_deleted_at p,
          pv_persona_id = po_persona_id p, pv_persona_name = sql_persona_name per,
          pv_persona_avatar_url = sql_persona_avatar_url per,
          pv_persona_deleted = sql_persona_deleted per,
          pv_reply_count = sql_reply_count db (po_id p)\<rparr>)"

text \<open>\<^verbatim>\<open>ORDER BY reply_count DESC, p.created_at DESC\<close> and
  \<^verbatim>\<open>ORDER BY p.created_at DESC\<close>\<close>

definition hot_order :: "post_row \<Rightarrow> post_row \<Rightarrow> bool" where
  "hot_order a b =
     (pv_reply_count a > pv_reply_count b \<or>
      (pv_reply_count a = pv_reply_count b \<and> pv_created_at a \<ge> pv_created_at b))"

definition new_order :: "post_row \<Rightarrow> post_row \<Rightarrow> bool" where
  "new_order a b = (pv_created_at a \<ge> pv_created_at b)"

definition sql_list_posts :: "string option \<Rightarrow> sql_db \<Rightarrow> post_row list" where
  "sql_list_posts srt db =
     (let rows = map (sql_post_row db) (filter (\<lambda>p. po_deleted_at p = None) (posts db))
      in if srt = Some ''hot'' then sort_by hot_order rows else sort_by new_order rows)"

text \<open>GET /api/posts/:id (lines 152-200). The comment query does not select
  \<open>deleted_at\<close>; every row it returns has it \<^verbatim>\<open>NULL\<close>.\<close>

definition sql_comment_view :: "sql_db \<Rightarrow> comment \<Rightarrow> comment_view" where
  "sql_comment_view db c =
     (let per = join_persona db (co_persona_id c)
      in \<lparr>cv_id = co_id c, cv_post_id = co_post_id c, cv_content = co_content c,
          cv_created_at = co_created_at c, cv_deleted_at = None,
          cv_reply_to_comment_id = co_reply_to_comment_id c,
          cv_persona_id = co_persona_id c, cv_persona_name = sql_persona_name per,
          cv_persona_avatar_url = sql_persona_avatar_url per,
          cv_persona_deleted = sql_persona_deleted per\<rparr>)"

text \<open>\<^verbatim>\<open>ORDER BY c.created_at ASC, c.id ASC\<close>\<close>

definition thread_order :: "comment_view \<Rightarrow> comment_view \<Rightarrow> bool" where
  "thread_order a b =
     (cv_created_at a < cv_created_at b \<or>
      (cv_created_at a = cv_created_at b \<and> cv_id a \<le> cv_id b))"

definition sql_get_post :: "num \<Rightarrow> sql_db \<Rightarrow> (post_view \<times> comment_view list) response" where
  "sql_get_post rid db =
     (case rid of
        NaN \<Rightarrow> Inl (400, BAD_ID)
      | Num i \<Rightarrow>
          (case post_by_id db i of
             None \<Rightarrow> Inl (404, NOT_FOUND)
           | Some p \<Rightarrow>
               if po_deleted_at p \<noteq> None then Inl (404, NOT_FOUND)
               else Inr (sql_post_view db p,
                         sort_by thread_order
                           (map (sql_comment_view db)
                              (filter (\<lambda>c. co_post_id c = i \<and> co_deleted_at c = None)
                                 (comments db))))))"

text \<open>POST /api/posts (lines 202-222); \<open>now\<close> is the \<^verbatim>\<open>datetime('now')\<close> default of
  \<open>created_at\<close>.\<close>

definition sql_create_post ::
  "js \<Rightarrow> post_body \<Rightarrow> instant \<Rightarrow> sql_db \<Rightarrow> nat response \<times> sql_db" where
  "sql_create_post pf body now db =
     (let personaName = body_str pf (tb_persona_name body);
          content = body_str pf (tb_content body);
          imageUrl = body_str pf (tb_image_url body)
      in if personaName = [] then (Inl (400, PERSONA_REQUIRED), db)
         else if content = [] then (Inl (400, CONTENT_REQUIRED), db)
         else if imageUrl \<noteq> [] \<and> \<not> isProbablyHttpUrl pf imageUrl
           then (Inl (400, IMAGE_URL_INVALID), db)
         else case persona_by_name db personaName of
                None \<Rightarrow> (Inl (400, PERSONA_NOT_FOUND), db)
              | Some persona \<Rightarrow>
                  if ps_deleted_at persona \<noteq> None then (Inl (400, PERSONA_NOT_FOUND), db)
                  else let i = next_rowid (seq_posts db) (map po_id (posts db))
                       in (Inr i,
                           db\<lparr>posts := posts db @
                                 [\<lparr>po_id = i, po_persona_id = Some (ps_id persona),
                                   po_content = content, po_image_url = or_null imageUrl,
                                   po_created_at = now, po_deleted_at = None\<rparr>],
                              seq_posts := i\<rparr>))"

text \<open>DELETE /api/posts/:id (lines 225-241). The two \<^verbatim>\<open>UPDATE\<close>s run inside one
  \<^verbatim>\<open>db.transaction\<close>: the handler is one step from the store before to the store after.\<close>

definition sql_delete_post :: "num \<Rightarrow> instant \<Rightarrow> sql_db \<Rightarrow> unit response \<times> sql_db" where
  "sql_delete_post rid ts db =
     (case rid of
        NaN \<Rightarrow> (Inl (400, BAD_ID), db)
      | Num i \<Rightarrow>
          (case post_by_id db i of
             None \<Rightarrow> (Inl (404, NOT_FOUND), db)
           | Some p \<Rightarrow>
               if po_deleted_at p \<noteq> None then (Inr (), db)
               else (Inr (),
                     db\<lparr>posts :=
                          map (\<lambda>q. if po_id q = i then q\<lparr>po_deleted_at := Some ts\<rparr> else q)
                            (posts db),
                        comments :=
                          map (\<lambda>c. if co_post_id c = i then c\<lparr>co_deleted_at := Some ts\<rparr>
                                   else c) (comments db)\<rparr>)))"

text \<open>POST /api/comments (lines 244-278).\<close>

definition sql_create_comment ::
  "js \<Rightarrow> comment_body \<Rightarrow> instant \<Rightarrow> sql_db \<Rightarrow> nat response \<times> sql_db" where
  "sql_create_comment pf body now db =
     (let personaName = body_str pf (cb_persona_name body);
          content = body_str pf (cb_content body);
          replyToCommentId = cb_reply_to_comment_id body
      in case cb_post_id body of
           NaN \<Rightarrow> (Inl (400, POST_ID_REQUIRED), db)
         | Num postId \<Rightarrow>
             if personaName = [] then (Inl (400, PERSONA_REQUIRED), db)
             else if content = [] then (Inl (400, CONTENT_REQUIRED), db)
             else if replyToCommentId = Some NaN then (Inl (400, BAD_REPLY_TO), db)
             else case post_by_id db postId of
                    None \<Rightarrow> (Inl (404, POST_NOT_FOUND), db)
                  | Some p \<Rightarrow>
                      if po_deleted_at p \<noteq> None then (Inl (404, POST_NOT_FOUND), db)
                      else case persona_by_name db personaName of
                             None \<Rightarrow> (Inl (400, PERSONA_NOT_FOUND), db)
                           | Some persona \<Rightarrow>
                               if ps_deleted_at persona \<noteq> None
                               then (Inl (400, PERSONA_NOT_FOUND), db)
                               else if (case replyToCommentId of
                                          Some (Num r) \<Rightarrow>
                                            (case comment_by_id db r of
                                               None \<Rightarrow> True
                                             | Some parent \<Rightarrow>
                                                 co_deleted_at parent \<noteq> None \<or>
                                                 co_post_id parent \<noteq> postId)
                                        | _ \<Rightarrow> False)
                               then (Inl (400, REPLY_TARGET_INVALID), db)
                               else let i = next_rowid (seq_comments db)
                                              (map co_id (comments db))
                                    in (Inr i,
                                        db\<lparr>comments := comments db @
                                              [\<lparr>co_id = i, co_post_id = postId,
                                                co_persona_id = Some (ps_id persona),
                                                co_content = content,
                                                co_reply_to_comment_id = replyToCommentId,
                                                co_created_at = now,
                                                co_deleted_at = None\<rparr>],
                                           seq_comments := i\<rparr>))"

subsection \<open>The key-value variant\<close>

text \<open>The store, one association list for each of the four kinds of key:
  \<^verbatim>\<open>"persona:" + id\<close>, \<^verbatim>\<open>"persona_name:" + name.toLowerCase()\<close>, \<^verbatim>\<open>"post:" + id\<close> and
  \<^verbatim>\<open>`comment_post:${postId}:${id}`\<close>. \<^verbatim>\<open>db.get\<close> is \<open>map_of\<close>, \<^verbatim>\<open>db.set\<close> is
  \<open>AList.update\<close> and \<^verbatim>\<open>db.delete\<close> is \<open>AList.delete\<close>.\<close>

record kv_db =
  persona_keys :: "(nat \<times> persona) list"
  persona_name_keys :: "(string \<times> nat) list"
  post_keys :: "(nat \<times> post) list"
  comment_post_keys :: "((nat \<times> nat) \<times> comment) list"

definition kv_empty :: kv_db where
  "kv_empty = \<lparr>persona_keys = [], persona_name_keys = [], post_keys = [],
                comment_post_keys = []\<rparr>"

text \<open>The keys as strings; an identifier is written in decimal.\<close>

function decimal :: "nat \<Rightarrow> string" where
  "decimal n =
     (if n < 10 then [''0123456789'' ! n]
      else decimal (n div 10) @ [''0123456789'' ! (n mod 10)])"
  by pat_completeness auto
termination
  by (relation "measure id") auto

declare decimal.simps [simp del]

definition persona_key :: "nat \<Rightarrow> string" where
  "persona_key i = ''persona:'' @ decimal i"

definition persona_name_key :: "string \<Rightarrow> string" where
  "persona_name_key n = ''persona_name:'' @ n"

definition post_key :: "nat \<Rightarrow> string" where
  "post_key i = ''post:'' @ decimal i"

definition comment_post_key :: "nat \<times> nat \<Rightarrow> string" where
  "comment_post_key k = ''comment_post:'' @ decimal (fst k) @ '':'' @ decimal (snd k)"

text \<open>\<^verbatim>\<open>db.list\<close>. The client of the store (\<^verbatim>\<open>@replit/database\<close>) takes the prefix as a
  string, \<^verbatim>\<open>list(prefix)\<close>, puts it into the query of its request with
  \<^verbatim>\<open>encodeURIComponent(prefix)\<close> and answers the keys that start with it. Every call of
  the handlers passes an object, \<^verbatim>\<open>db.list({ prefix: ... })\<close>, and the string of an object
  is \<^verbatim>\<open>[object Object]\<close>, whatever the object holds. \<open>db_list\<close> scans the keys of the
  kind the handler goes on to read; no key of another kind starts with that string either
  (\<open>no_key_listed\<close> below).\<close>

datatype list_options = Prefix string

definition object_to_string :: "list_options \<Rightarrow> string" where
  "object_to_string options = ''[object Object]''"

definition starts_with :: "string \<Rightarrow> string \<Rightarrow> bool" where
  "starts_with prefix s = (take (length prefix) s = prefix)"

definition db_list :: "list_options \<Rightarrow> ('k \<Rightarrow> string) \<Rightarrow> ('k \<times> 'v) list \<Rightarrow> 'k list" where
  "db_list options key_of tbl =
     filter (\<lambda>k. starts_with (object_to_string options) (key_of k)) (map fst tbl)"

text \<open>\<^verbatim>\<open>Promise.all(keys.map(k => db.get(k)))\<close>; a listed key is a key of the store.\<close>

definition db_get_all :: "('k \<times> 'v) list \<Rightarrow> 'k list \<Rightarrow> 'v list" where
  "db_get_all tbl ks = List.map_filter (map_of tbl) ks"

text \<open>\<^verbatim>\<open>db.get("persona_name:" + name.toLowerCase())\<close>, read for its truth value: a
  missing key and the number 0 are falsy.\<close>

definition name_lookup :: "js \<Rightarrow> kv_db \<Rightarrow> string \<Rightarrow> nat option" where
  "name_lookup pf db name =
     (case map_of (persona_name_keys db) (js_toLowerCase pf name) of
        None \<Rightarrow> None
      | Some i \<Rightarrow> if i = 0 then None else Some i)"

text \<open>\<^verbatim>\<open>getPersona\<close> of the read handlers. Its cache lives for one request, in which
  the store does not change, so it answers what \<^verbatim>\<open>db.get\<close> answers.\<close>

definition getPersona :: "kv_db \<Rightarrow> nat option \<Rightarrow> persona option" where
  "getPersona db pid =
     (case pid of
        None \<Rightarrow> None
      | Some i \<Rightarrow> if i = 0 then None else map_of (persona_keys db) i)"

text \<open>\<^verbatim>\<open>persona?.name || "..."\<close>,
  \<^verbatim>\<open>persona?.deleted_at ? null : persona?.avatar_url\<close> and
  \<^verbatim>\<open>!persona || !!persona.deleted_at\<close>\<close>

definition kv_persona_name :: "persona option \<Rightarrow> string" where
  "kv_persona_name per =
     (case per of
        None \<Rightarrow> deleted_persona
      | Some p \<Rightarrow> if ps_name p = [] then deleted_persona else ps_name p)"

definition kv_persona_avatar_url :: "persona option \<Rightarrow> jsval" where
  "kv_persona_avatar_url per =
     (case per of
        None \<Rightarrow> JUndefined
      | Some p \<Rightarrow>
          if ps_deleted_at p \<noteq> None then JNull
          else (case ps_avatar_url p of None \<Rightarrow> JNull | Some u \<Rightarrow> JStr u))"

definition kv_persona_deleted :: "persona option \<Rightarrow> bool" where
  "kv_persona_deleted per =
     (case per of None \<Rightarrow> True | Some p \<Rightarrow> ps_deleted_at p \<noteq> None)"

text \<open>POST /api/personas (lines 318-340); \<open>now\<close> is \<^verbatim>\<open>Date.now()\<close>.\<close>

definition kv_create_persona ::
  "js \<Rightarrow> persona_body \<Rightarrow> nat \<Rightarrow> kv_db \<Rightarrow> nat response \<times> kv_db" where
  "kv_create_persona pf body now db =
     (let name = body_str pf (pb_name body)
      in if name = [] then (Inl (400, NAME_REQUIRED), db)
         else if name = reserved_name then (Inl (400, NAME_RESERVED), db)
         else if name_lookup pf db name \<noteq> None then (Inl (409, NAME_EXISTS), db)
         else let i = now;
                  persona = \<lparr>ps_id = i, ps_name = name,
                             ps_avatar_url = or_null (body_str pf (pb_avatar_url body)),
                             ps_bio = or_null (body_str pf (pb_bio body)),
                             ps_creator = or_null (body_str pf (pb_creator body)),
                             ps_deleted_at = None\<rparr>
              in if (case ps_avatar_url persona of
                       None \<Rightarrow> False
                     | Some u \<Rightarrow> \<not> isProbablyHttpUrl pf u)
                 then (Inl (400, AVATAR_URL_INVALID), db)
                 else (Inr i,
                       db\<lparr>persona_keys := AList.update i persona (persona_keys db),
                          persona_name_keys :=
                            AList.update (js_toLowerCase pf name) i (persona_name_keys db)\<rparr>))"

text \<open>DELETE /api/personas/:id (lines 342-352); \<open>now\<close> is \<^verbatim>\<open>nowIso()\<close>. No key ends in
  \<^verbatim>\<open>NaN\<close>.\<close>

definition kv_delete_persona :: "js \<Rightarrow> num \<Rightarrow> instant \<Rightarrow> kv_db \<Rightarrow> unit response \<times> kv_db" where
  "kv_delete_persona pf rid now db =
     (case rid of
        NaN \<Rightarrow> (Inl (404, NOT_FOUND), db)
      | Num i \<Rightarrow>
          (case map_of (persona_keys db) i of
             None \<Rightarrow> (Inl (404, NOT_FOUND), db)
           | Some persona \<Rightarrow>
               (Inr (),
                db\<lparr>persona_keys :=
                     AList.update i (persona\<lparr>ps_deleted_at := Some now\<rparr>) (persona_keys db),
                   persona_name_keys :=
                     AList.delete (js_toLowerCase pf (ps_name persona))
                       (persona_name_keys db)\<rparr>)))"

text \<open>GET /api/posts (lines 355-384): the posts under the listed keys, and for each of them
  the number of keys that \<^verbatim>\<open>db.list({ prefix: `comment_post:${p.id}:` })\<close> answers.\<close>

definition kv_post_row :: "kv_db \<Rightarrow> post \<Rightarrow> post_row" where
  "kv_post_row db p =
     (let persona = getPersona db (po_persona_id p);
          commentKeys =
            db_list (Prefix (''comment_post:'' @ decimal (po_id p) @ '':'')) comment_post_key
              (comment_post_keys db)
      in \<lparr>pv_id = po_id p, pv_content = po_content p, pv_image_url = po_image_url p,
          pv_created_at = po_created_at p, pv_deleted_at = po_deleted_at p,
          pv_persona_id = po_persona_id p, pv_persona_name = kv_persona_name persona,
          pv_persona_avatar_url = kv_persona_avatar_url persona,
          pv_persona_deleted = kv_persona_deleted persona,
          pv_reply_count = length commentKeys\<rparr>)"

text \<open>The two comparators of \<^verbatim>\<open>posts.sort\<close>:
  \<^verbatim>\<open>b.reply_count - a.reply_count || new Date(b.created_at) - new Date(a.created_at)\<close>
  and \<^verbatim>\<open>new Date(b.created_at) - new Date(a.created_at)\<close>\<close>

definition hot_cmp :: "post_row \<Rightarrow> post_row \<Rightarrow> int" where
  "hot_cmp a b =
     (let d = int (pv_reply_count b) - int (pv_reply_count a)
      in if d \<noteq> 0 then d else int (pv_created_at b) - int (pv_created_at a))"

definition new_cmp :: "post_row \<Rightarrow> post_row \<Rightarrow> int" where
  "new_cmp a b = int (pv_created_at b) - int (pv_created_at a)"

definition kv_list_posts :: "string option \<Rightarrow> kv_db \<Rightarrow> post_row list" where
  "kv_list_posts srt db =
     (let postKeys = db_list (Prefix ''post:'') post_key (post_keys db);
          posts = filter (\<lambda>p. po_deleted_at p = None) (db_get_all (post_keys db) postKeys);
          rows = map (kv_post_row db) posts
      in if srt = Some ''hot'' then js_sort hot_cmp rows else js_sort new_cmp rows)"

text \<open>GET /api/posts/:id (lines 386-416). The persona of the post is read with
  \<^verbatim>\<open>db.get("persona:" + post.persona_id)\<close>, the personas of the comments with
  \<^verbatim>\<open>getPersona\<close>; the comments are those under the keys that
  \<^verbatim>\<open>db.list({ prefix: `comment_post:${id}:` })\<close> answers.\<close>

definition kv_post_view :: "kv_db \<Rightarrow> post \<Rightarrow> post_view" where
  "kv_post_view db p =
     (let persona = (case po_persona_id p of
                       None \<Rightarrow> None
                     | Some i \<Rightarrow> map_of (persona_keys db) i)
      in \<lparr>pv_id = po_id p, pv_content = po_content p, pv_image_url = po_image_url p,
          pv_created_at = po_created_at p, pv_deleted_at = po_deleted_at p,
          pv_persona_id = po_persona_id p, pv_persona_name = kv_persona_name persona,
          pv_persona_avatar_url = kv_persona_avatar_url persona,
          pv_persona_deleted = kv_persona_deleted persona\<rparr>)"

definition kv_comment_view :: "kv_db \<Rightarrow> comment \<Rightarrow> comment_view" where
  "kv_comment_view db c =
     (let p = getPersona db (co_persona_id c)
      in \<lparr>cv_id = co_id c, cv_post_id = co_post_id c, cv_content = co_content c,
          cv_created_at = co_created_at c, cv_deleted_at = co_deleted_at c,
          cv_reply_to_comment_id = co_reply_to_comment_id c,
          cv_persona_id = co_persona_id c, cv_persona_name = kv_persona_name p,
          cv_persona_avatar_url = kv_persona_avatar_url p,
          cv_persona_deleted = kv_persona_deleted p\<rparr>)"

text \<open>\<^verbatim>\<open>(a, b) => new Date(a.created_at) - new Date(b.created_at)\<close>\<close>

definition thread_cmp :: "comment_view \<Rightarrow> comment_view \<Rightarrow> int" where
  "thread_cmp a b = int (cv_created_at a) - int (cv_created_at b)"

definition kv_get_post :: "num \<Rightarrow> kv_db \<Rightarrow> (post_view \<times> comment_view list) response" where
  "kv_get_post rid db =
     (case rid of
        NaN \<Rightarrow> Inl (404, NOT_FOUND)
      | Num i \<Rightarrow>
          (case map_of (post_keys db) i of
             None \<Rightarrow> Inl (404, NOT_FOUND)
           | Some p \<Rightarrow>
               if po_deleted_at p \<noteq> None then Inl (404, NOT_FOUND)
               else let commentKeys =
                          db_list (Prefix (''comment_post:'' @ decimal i @ '':''))
                            comment_post_key (comment_post_keys db);
                        comments =
                          filter (\<lambda>c. co_deleted_at c = None)
                            (db_get_all (comment_post_keys db) commentKeys)
                    in Inr (kv_post_view db p,
                            js_sort thread_cmp (map (kv_comment_view db) comments))))"

text \<open>POST /api/posts (lines 418-440); \<open>now\<close> is \<^verbatim>\<open>Date.now()\<close> and \<open>ts\<close> is the
  \<^verbatim>\<open>nowIso()\<close> read after it.\<close>

definition kv_create_post ::
  "js \<Rightarrow> post_body \<Rightarrow> nat \<Rightarrow> instant \<Rightarrow> kv_db \<Rightarrow> nat response \<times> kv_db" where
  "kv_create_post pf body now ts db =
     (let personaName = body_str pf (tb_persona_name body);
          content = body_str pf (tb_content body);
          imageUrl = body_str pf (tb_image_url body)
      in if personaName = [] \<or> content = [] then (Inl (400, MISSING_FIELDS), db)
         else if imageUrl \<noteq> [] \<and> \<not> isProbablyHttpUrl pf imageUrl
           then (Inl (400, IMAGE_URL_INVALID), db)
         else case name_lookup pf db personaName of
                None \<Rightarrow> (Inl (400, PERSONA_NOT_FOUND), db)
              | Some personaId \<Rightarrow>
                  let i = now
                  in (Inr i,
                      db\<lparr>post_keys :=
                           AList.update i
                             \<lparr>po_id = i, po_persona_id = Some personaId, po_content = content,
                              po_image_url = or_null imageUrl, po_created_at = ts,
                              po_deleted_at = None\<rparr>
                             (post_keys db)\<rparr>))"

text \<open>DELETE /api/posts/:id (lines 442-457): the post is written back with
  \<open>deleted_at\<close> set, then every key that
  \<^verbatim>\<open>db.list({ prefix: `comment_post:${id}:` })\<close> answers is deleted.\<close>

definition kv_delete_post :: "num \<Rightarrow> instant \<Rightarrow> kv_db \<Rightarrow> unit response \<times> kv_db" where
  "kv_delete_post rid now db =
     (case rid of
        NaN \<Rightarrow> (Inl (404, NOT_FOUND), db)
      | Num i \<Rightarrow>
          (case map_of (post_keys db) i of
             None \<Rightarrow> (Inl (404, NOT_FOUND), db)
           | Some p \<Rightarrow>
               (Inr (),
                db\<lparr>post_keys := AList.update i (p\<lparr>po_deleted_at := Some now\<rparr>) (post_keys db),
                   comment_post_keys :=
                     fold AList.delete
                       (db_list (Prefix (''comment_post:'' @ decimal i @ '':''))
                          comment_post_key (comment_post_keys db))
                       (comment_post_keys db)\<rparr>)))"

text \<open>POST /api/comments (lines 459-485); \<open>now\<close> is \<^verbatim>\<open>Date.now()\<close> and \<open>ts\<close> is the
  \<^verbatim>\<open>nowIso()\<close> read after it. \<^verbatim>\<open>!postId\<close> holds for \<^verbatim>\<open>NaN\<close> and for 0.\<close>

definition kv_create_comment ::
  "js \<Rightarrow> comment_body \<Rightarrow> nat \<Rightarrow> instant \<Rightarrow> kv_db \<Rightarrow> nat response \<times> kv_db" where
  "kv_create_comment pf body now ts db =
     (let personaName = body_str pf (cb_persona_name body);
          content = body_str pf (cb_content body);
          replyToCommentId = cb_reply_to_comment_id body
      in case cb_post_id body of
           NaN \<Rightarrow> (Inl (400, MISSING_FIELDS), db)
         | Num postId \<Rightarrow>
             if postId = 0 \<or> personaName = [] \<or> content = []
             then (Inl (400, MISSING_FIELDS), db)
             else case map_of (post_keys db) postId of
                    None \<Rightarrow> (Inl (404, POST_NOT_FOUND), db)
                  | Some p \<Rightarrow>
                      if po_deleted_at p \<noteq> None then (Inl (404, POST_NOT_FOUND), db)
                      else case name_lookup pf db personaName of
                             None \<Rightarrow> (Inl (400, PERSONA_NOT_FOUND), db)
                           | Some personaId \<Rightarrow>
                               let i = now
                               in (Inr i,
                                   db\<lparr>comment_post_keys :=
                                        AList.update (postId, i)
                                          \<lparr>co_id = i, co_post_id = postId,
                                           co_persona_id = Some personaId,
                                           co_content = content,
                                           co_reply_to_comment_id = replyToCommentId,
                                           co_created_at = ts, co_deleted_at = None\<rparr>
                                          (comment_post_keys db)\<rparr>))"

subsection \<open>Requests and runs\<close>

text \<open>The requests of the API with the clock readings taken while they are served: for a
  creation, \<^verbatim>\<open>Date.now()\<close> (the identifier of the key-value variant) and the instant
  stored as \<open>created_at\<close>; for a deletion, \<^verbatim>\<open>nowIso()\<close>. GET /api/personas, about
  which nothing is claimed, is not modelled.\<close>

datatype request =
    CreatePersona persona_body nat
  | DeletePersona num instant
  | ListPosts "string option"
  | GetPost num
  | CreatePost post_body nat instant
  | DeletePost num instant
  | CreateComment comment_body nat instant

datatype answer =
    Created nat
  | Done
  | Posts "post_row list"
  | Detail post_view "comment_view list"





text \<open>What a client sees of an answer when identifiers and payloads are left aside:
  success, or the status and the error code.\<close>

definition outcome :: "answer response \<Rightarrow> unit response" where
  "outcome r = map_sum id (\<lambda>_. ()) r"






subsection \<open>Reading responses\<close>

definition error_of :: "'a response \<Rightarrow> error option" where
  "error_of r = (case r of Inl (st, e) \<Rightarrow> Some e | Inr _ \<Rightarrow> None)"

text \<open>The identifiers of the entities that an answer holds, in the order of the answer.\<close>

definition entities :: "answer \<Rightarrow> nat list" where
  "entities a =
     (case a of
        Created i \<Rightarrow> [i]
      | Done \<Rightarrow> []
      | Posts rows \<Rightarrow> map pv_id rows
      | Detail pv cvs \<Rightarrow> pv_id pv # map cv_id cvs)"

subsection \<open>Example inputs\<close>

text \<open>The built-ins for the examples. On strings of ASCII characters, which is what the
  examples hold, \<^verbatim>\<open>trim\<close> strips the six characters of \<open>is_space\<close> from both ends and
  \<^verbatim>\<open>toLowerCase\<close> folds the letters A-Z; the URL parser knows three schemes and rejects
  every other string.\<close>

definition is_space :: "char \<Rightarrow> bool" where
  "is_space c = (c \<in> set [CHR 0x20, CHR 0x09, CHR 0x0A, CHR 0x0B, CHR 0x0C, CHR 0x0D])"

definition ascii_trim :: "string \<Rightarrow> string" where
  "ascii_trim s = rev (dropWhile is_space (rev (dropWhile is_space s)))"

definition example_url_protocol :: "string \<Rightarrow> string option" where
  "example_url_protocol u =
     (if take 7 u = ''http://'' then Some ''http:''
      else if take 8 u = ''https://'' then Some ''https:''
      else if take 6 u = ''ftp://'' then Some ''ftp:''
      else None)"

definition example_js :: js where
  "example_js = \<lparr>js_trim = ascii_trim, js_toLowerCase = map lower_char,
                  js_url_protocol = example_url_protocol\<rparr>"

definition alice_body :: persona_body where
  "alice_body = \<lparr>pb_name = Some ''Alice'', pb_avatar_url = Some ''http://a.example/a.png'',
                  pb_bio = None, pb_creator = None\<rparr>"

definition bob_body :: persona_body where
  "bob_body = \<lparr>pb_name = Some '' Bob '', pb_avatar_url = Some ''  '', pb_bio = Some [],
                pb_creator = None\<rparr>"

definition hi_body :: post_body where
  "hi_body = \<lparr>tb_persona_name = Some ''Alice'', tb_content = Some ''hi'',
               tb_image_url = Some '' ''\<rparr>"

text \<open>The stores after \<open>alice_body\<close> was posted to the empty store (at instant 1000 for the
  key-value variant).\<close>

definition sql_alice :: sql_db where
  "sql_alice = snd (sql_create_persona example_js alice_body sql_empty)"

definition kv_alice :: kv_db where
  "kv_alice = snd (kv_create_persona example_js alice_body 1000 kv_empty)"

text \<open>The scenario of the specification: Alice posts and comments on her post, then Alice is
  soft-deleted.\<close>

definition sql_hey :: comment_body where
  "sql_hey = \<lparr>cb_post_id = Num 1, cb_persona_name = Some ''alice'', cb_content = Some ''hey'',
               cb_reply_to_comment_id = None\<rparr>"

definition kv_hey :: comment_body where
  "kv_hey = \<lparr>cb_post_id = Num 2000, cb_persona_name = Some ''alice'', cb_content = Some ''hey'',
              cb_reply_to_comment_id = None\<rparr>"

definition sql_alice_posted :: sql_db where
  "sql_alice_posted =
     snd (sql_create_comment example_js sql_hey 3500
            (snd (sql_create_post example_js hi_body 3000 sql_alice)))"

definition sql_alice_deleted :: sql_db where
  "sql_alice_deleted = snd (sql_delete_persona (Num 1) 4000 sql_alice_posted)"

definition kv_alice_posted :: kv_db where
  "kv_alice_posted =
     snd (kv_create_comment example_js kv_hey 3500 3500
            (snd (kv_create_post example_js hi_body 2000 3000 kv_alice)))"

definition kv_alice_deleted :: kv_db where
  "kv_alice_deleted = snd (kv_delete_persona example_js (Num 1000) 4000 kv_alice_posted)"

text \<open>A second post by Alice, and a comment on it that names the comment on the first post
  as the one it replies to.\<close>

definition sql_two_posts :: sql_db where
  "sql_two_posts = snd (sql_create_post example_js hi_body 3600 sql_alice_posted)"

definition kv_two_posts :: kv_db where
  "kv_two_posts = snd (kv_create_post example_js hi_body 3600 3600 kv_alice_posted)"

definition sql_cross_reply :: comment_body where
  "sql_cross_reply = \<lparr>cb_post_id = Num 2, cb_persona_name = Some ''Alice'',
                       cb_content = Some ''re'', cb_reply_to_comment_id = Some (Num 1)\<rparr>"

definition kv_cross_reply :: comment_body where
  "kv_cross_reply = \<lparr>cb_post_id = Num 3600, cb_persona_name = Some ''Alice'',
                      cb_content = Some ''re'', cb_reply_to_comment_id = Some (Num 3500)\<rparr>"

text \<open>Further persona requests: the name of Alice in lower case, another persona, and Alice
  with an avatar that is no http(s) URL.\<close>

definition alice_lower_body :: persona_body where
  "alice_lower_body = \<lparr>pb_name = Some ''alice'', pb_avatar_url = None, pb_bio = None,
                        pb_creator = None\<rparr>"

definition carol_body :: persona_body where
  "carol_body = \<lparr>pb_name = Some ''Carol'', pb_avatar_url = None, pb_bio = None,
                  pb_creator = None\<rparr>"

definition alice_ftp_body :: persona_body where
  "alice_ftp_body = \<lparr>pb_name = Some ''Alice'', pb_avatar_url = Some ''ftp://a.example/a.png'',
                      pb_bio = None, pb_creator = None\<rparr>"

text \<open>Alice is deleted and a new persona takes the freed name (key-value variant).\<close>

definition kv_alice_again :: kv_db where
  "kv_alice_again =
     snd (kv_create_persona example_js alice_body 4500
            (snd (kv_delete_persona example_js (Num 1000) 4000 kv_alice)))"

text \<open>The requests that build the stores with two posts, one comment on the first.\<close>

definition sql_two_posts_requests :: "request list" where
  "sql_two_posts_requests =
     [CreatePersona alice_body 1000, CreatePost hi_body 2000 3000,
      CreateComment sql_hey 3500 3500, CreatePost hi_body 3600 3600]"

definition kv_two_posts_requests :: "request list" where
  "kv_two_posts_requests =
     [CreatePersona alice_body 1000, CreatePost hi_body 2000 3000,
      CreateComment kv_hey 3500 3500, CreatePost hi_body 3600 3600]"

text \<open>Requests on which the variants answer differently. A post without a persona name.
  The reuse of the name of a deleted persona, a second persona whose name differs from
  the first in case only, a second persona of the same name whose avatar is no http(s)
  URL, and a second persona of the same name after a first one that was created when the
  clock read 0. Requests that carry an identifier, after the same two creations:
  a comment on post 1, a read of post 1, the deletion of post 1 and of persona 1; and a
  deletion whose identifier is not a number. A comment on post 1 and a read of that post
  when the clock of the key-value variant read 1 at every creation, so that the identifiers
  of the two variants are the same. A listing after the creation of a post.\<close>

definition nameless_post :: "request list" where
  "nameless_post =
     [CreatePost \<lparr>tb_persona_name = None, tb_content = Some ''hi'', tb_image_url = None\<rparr> 1 1]"

definition name_reuse :: "request list" where
  "name_reuse =
     [CreatePersona alice_body 1, DeletePersona (Num 1) 2, CreatePersona alice_body 3]"

definition name_in_lower_case :: "request list" where
  "name_in_lower_case = [CreatePersona alice_body 1000, CreatePersona alice_lower_body 1001]"

definition taken_name_bad_avatar :: "request list" where
  "taken_name_bad_avatar = [CreatePersona alice_body 1000, CreatePersona alice_ftp_body 1001]"

definition clock_reads_zero :: "request list" where
  "clock_reads_zero = [CreatePersona alice_body 0, CreatePersona alice_body 1]"

definition identifiers_of_sqlite :: "request list" where
  "identifiers_of_sqlite =
     [CreatePersona alice_body 1000, CreatePost hi_body 2000 3000,
      CreateComment sql_hey 3500 3500, GetPost (Num 1), DeletePost (Num 1) 4000,
      DeletePersona (Num 1) 5000]"

definition bad_identifier :: "request list" where
  "bad_identifier = [DeletePersona NaN 1, DeletePost NaN 2, GetPost NaN]"

definition same_identifiers :: "request list" where
  "same_identifiers =
     [CreatePersona alice_body 1, CreatePost hi_body 1 1, CreateComment sql_hey 1 1,
      GetPost (Num 1)]"

definition post_then_listing :: "request list" where
  "post_then_listing =
     [CreatePersona alice_body 1000, CreatePost hi_body 2000 3000, ListPosts None]"

text \<open>Requests that carry no identifier: Alice, a post by her, a listing, Alice once more, a
  post by an unknown persona.\<close>

definition creations :: "request list" where
  "creations =
     [CreatePersona alice_body 1000, CreatePost hi_body 2000 3000, ListPosts (Some ''hot''),
      CreatePersona alice_body 4000,
      CreatePost \<lparr>tb_persona_name = Some ''Bob'', tb_content = Some ''hi'',
                   tb_image_url = None\<rparr> 5000 5000]"


section \<open>Properties\<close>

subsection \<open>Identifiers and sorting\<close>

lemma fold_max_ge: "(s::nat) \<le> fold max ids s"
  by (induction ids arbitrary: s) (auto intro: order_trans[OF max.cobounded2])

lemma fold_max_mem: "x \<in> set ids \<Longrightarrow> (x::nat) \<le> fold max ids s"
proof (induction ids arbitrary: s)
  case Nil
  then show ?case by simp
next
  case (Cons a ids)
  show ?case
  proof (cases "x = a")
    case True
    have "a \<le> max a s" by simp
    also have "\<dots> \<le> fold max ids (max a s)" by (rule fold_max_ge)
    finally show ?thesis using True by simp
  next
    case False
    with Cons show ?thesis by simp
  qed
qed

lemma next_rowid_fresh: "x \<in> set ids \<Longrightarrow> x < next_rowid seq ids"
  by (simp add: next_rowid_def less_Suc_eq_le fold_max_mem)

lemma find_snoc_fresh: "\<forall>x\<in>set xs. \<not> P x \<Longrightarrow> P y \<Longrightarrow> find P (xs @ [y]) = Some y"
  by (induction xs) auto

lemma set_insert_by: "set (insert_by le x ys) = insert x (set ys)"
  by (induction ys) auto

lemma set_sort_by: "set (sort_by le xs) = set xs"
  by (induction xs) (simp_all add: sort_by_def set_insert_by)

lemma set_js_sort: "set (js_sort cmp xs) = set xs"
  by (simp add: js_sort_def set_sort_by)

lemma mset_insert_by: "mset (insert_by le x ys) = add_mset x (mset ys)"
  by (induction ys) auto

lemma mset_sort_by: "mset (sort_by le xs) = mset xs"
  by (induction xs) (simp_all add: sort_by_def mset_insert_by)

lemma mset_js_sort: "mset (js_sort cmp xs) = mset xs"
  by (simp add: js_sort_def mset_sort_by)

lemma sorted_insert_by:
  assumes "\<And>a b. le a b \<or> le b a" and "\<And>a b c. le a b \<Longrightarrow> le b c \<Longrightarrow> le a c"
    and "sorted_wrt le ys"
  shows "sorted_wrt le (insert_by le x ys)"
  using assms(3)
proof (induction ys)
  case Nil
  then show ?case by simp
next
  case (Cons y ys)
  show ?case
  proof (cases "le x y")
    case True
    with Cons.prems assms(2) show ?thesis by auto
  next
    case False
    with assms(1) have "le y x" by blast
    with False Cons show ?thesis by (auto simp: set_insert_by)
  qed
qed

lemma sorted_sort_by:
  assumes "\<And>a b. le a b \<or> le b a" and "\<And>a b c. le a b \<Longrightarrow> le b c \<Longrightarrow> le a c"
  shows "sorted_wrt le (sort_by le xs)"
proof (induction xs)
  case Nil
  then show ?case by (simp add: sort_by_def)
next
  case (Cons x xs)
  have "sort_by le (x # xs) = insert_by le x (sort_by le xs)"
    by (simp add: sort_by_def)
  with Cons sorted_insert_by[OF assms] show ?case by simp
qed

lemma hot_cmp_le: "hot_cmp a b \<le> 0 \<longleftrightarrow> hot_order a b"
  by (auto simp: hot_cmp_def hot_order_def Let_def)

lemma new_cmp_le: "new_cmp a b \<le> 0 \<longleftrightarrow> new_order a b"
  by (auto simp: new_cmp_def new_order_def)



lemma js_sort_hot: "js_sort hot_cmp xs = sort_by hot_order xs"
  by (simp add: js_sort_def hot_cmp_le)

lemma js_sort_new: "js_sort new_cmp xs = sort_by new_order xs"
  by (simp add: js_sort_def new_cmp_le)



lemma thread_order_total: "thread_order a b \<or> thread_order b a"
  by (auto simp: thread_order_def)

lemma thread_order_trans: "thread_order a b \<Longrightarrow> thread_order b c \<Longrightarrow> thread_order a c"
  by (auto simp: thread_order_def)

subsection \<open>What \<^verbatim>\<open>db.list\<close> answers\<close>

text \<open>No key that the handlers write starts with the string that \<^verbatim>\<open>db.list\<close> makes of its
  argument, so every call of it answers the empty list: the listing of the posts is empty, the detail
  of a post has no comments, and the deletion of a post deletes no comment key.\<close>

lemma no_key_listed:
  "\<not> starts_with (object_to_string options) (persona_key i)"
  "\<not> starts_with (object_to_string options) (persona_name_key n)"
  "\<not> starts_with (object_to_string options) (post_key i)"
  "\<not> starts_with (object_to_string options) (comment_post_key k)"
  by (simp_all add: starts_with_def object_to_string_def persona_key_def
        persona_name_key_def post_key_def comment_post_key_def)

lemma db_list_object:
  "db_list options persona_key ptbl = []"
  "db_list options persona_name_key ntbl = []"
  "db_list options post_key ttbl = []"
  "db_list options comment_post_key ctbl = []"
  by (simp_all add: db_list_def no_key_listed)

lemma kv_list_posts_empty: "kv_list_posts srt db = []"
  by (simp add: kv_list_posts_def db_list_object db_get_all_def map_filter_simps js_sort_def
        sort_by_def)

lemma kv_get_post_InrD:
  "kv_get_post rid db = Inr (pv, cvs) \<Longrightarrow>
   \<exists>i p. rid = Num i \<and> map_of (post_keys db) i = Some p \<and> po_deleted_at p = None \<and>
         pv = kv_post_view db p \<and> cvs = []"
  by (auto simp: kv_get_post_def db_list_object db_get_all_def map_filter_simps js_sort_def
        sort_by_def split: num.splits option.splits if_splits)

lemma kv_get_post_found:
  "map_of (post_keys db) i = Some p \<Longrightarrow> po_deleted_at p = None \<Longrightarrow>
   kv_get_post (Num i) db = Inr (kv_post_view db p, [])"
  by (simp add: kv_get_post_def db_list_object db_get_all_def map_filter_simps js_sort_def
        sort_by_def)

lemma kv_delete_post_found:
  "map_of (post_keys db) j = Some p \<Longrightarrow>
   kv_delete_post (Num j) ts db =
     (Inr (), db\<lparr>post_keys := AList.update j (p\<lparr>po_deleted_at := Some ts\<rparr>) (post_keys db)\<rparr>)"
  by (simp add: kv_delete_post_def db_list_object)

lemma kv_delete_post_comments:
  "comment_post_keys (snd (kv_delete_post rid ts db)) = comment_post_keys db"
  by (simp add: kv_delete_post_def db_list_object split: num.splits option.splits)

lemma kv_reply_count_zero: "pv_reply_count (kv_post_row db p) = 0"
  by (simp add: kv_post_row_def db_list_object Let_def)

subsection \<open>Running the handlers\<close>

text \<open>The defining equations of the handlers and of the example inputs, with which the
  simplifier runs a handler on a concrete store; for \<^verbatim>\<open>db.list\<close> it takes the facts
  above.\<close>

lemmas handler_defs =
  body_str_def or_null_def lower_char_def nocase_fold_def nocase_eq_def
  reserved_name_def deleted_persona_def isProbablyHttpUrl_def sort_by_def js_sort_def
  sql_empty_def next_rowid_def persona_by_id_def join_persona_def persona_by_name_def
  post_by_id_def comment_by_id_def sql_persona_name_def sql_persona_deleted_def
  sql_persona_avatar_url_def sql_create_persona_def sql_delete_persona_def sql_reply_count_def
  sql_post_view_def sql_post_row_def hot_order_def new_order_def sql_list_posts_def
  sql_comment_view_def thread_order_def sql_get_post_def sql_create_post_def
  sql_delete_post_def sql_create_comment_def kv_empty_def name_lookup_def
  getPersona_def kv_persona_name_def kv_persona_avatar_url_def kv_persona_deleted_def
  kv_create_persona_def kv_delete_persona_def kv_post_row_def hot_cmp_def new_cmp_def
  kv_list_posts_empty kv_post_view_def kv_comment_view_def thread_cmp_def kv_get_post_def
  kv_create_post_def kv_delete_post_def kv_create_comment_def db_list_object db_get_all_def
  map_filter_simps error_of_def outcome_def entities_def Let_def

lemmas example_defs =
  is_space_def ascii_trim_def example_url_protocol_def example_js_def alice_body_def
  bob_body_def hi_body_def sql_alice_def kv_alice_def
  sql_hey_def kv_hey_def sql_alice_posted_def sql_alice_deleted_def kv_alice_posted_def
  kv_alice_deleted_def sql_two_posts_def kv_two_posts_def sql_cross_reply_def
  kv_cross_reply_def alice_lower_body_def carol_body_def kv_alice_again_def
  sql_two_posts_requests_def kv_two_posts_requests_def nameless_post_def name_reuse_def
  alice_ftp_body_def name_in_lower_case_def taken_name_bad_avatar_def clock_reads_zero_def
  identifiers_of_sqlite_def bad_identifier_def same_identifiers_def
  post_then_listing_def creations_def

subsection \<open>C1: the persona shown on a post or comment\<close>

text \<open>The name column of a row is the stored name of the persona whenever the persona row
  is found, deleted or not: \<^verbatim>\<open>COALESCE(per.name, ...)\<close> and \<^verbatim>\<open>persona?.name || ...\<close>
  take the placeholder only when there is no row (or, in the key-value variant, an empty
  name, which no creation stores). The avatar and the flag on the next lines do test
  \<open>deleted_at\<close>.\<close>

lemma sql_list_posts_rows:
  "set (sql_list_posts srt db) = sql_post_row db ` {p \<in> set (posts db). po_deleted_at p = None}"
  by (auto simp: sql_list_posts_def Let_def set_sort_by)

lemma sql_get_post_InrD:
  "sql_get_post rid db = Inr (pv, cvs) \<Longrightarrow>
   \<exists>i p. rid = Num i \<and> post_by_id db i = Some p \<and> po_deleted_at p = None \<and>
         pv = sql_post_view db p \<and>
         cvs = sort_by thread_order
                 (map (sql_comment_view db)
                    (filter (\<lambda>c. co_post_id c = i \<and> co_deleted_at c = None) (comments db)))"
  by (auto simp: sql_get_post_def split: num.splits option.splits if_splits)

lemma sql_row_shows_stored_name:
  assumes "r \<in> set (sql_list_posts srt db)"
    and "join_persona db (pv_persona_id r) = Some p"
  shows "pv_persona_name r = ps_name p"
    and "pv_persona_deleted r = (ps_deleted_at p \<noteq> None)"
    and "ps_deleted_at p \<noteq> None \<Longrightarrow> pv_persona_avatar_url r = JNull"
proof -
  from assms(1) obtain q where r: "r = sql_post_row db q"
    unfolding sql_list_posts_rows by blast
  from assms(2) have j: "join_persona db (po_persona_id q) = Some p"
    by (simp add: r sql_post_row_def Let_def)
  from j show "pv_persona_name r = ps_name p"
    by (simp add: r sql_post_row_def Let_def sql_persona_name_def)
  from j show "pv_persona_deleted r = (ps_deleted_at p \<noteq> None)"
    by (simp add: r sql_post_row_def Let_def sql_persona_deleted_def)
  from j show "ps_deleted_at p \<noteq> None \<Longrightarrow> pv_persona_avatar_url r = JNull"
    by (simp add: r sql_post_row_def Let_def sql_persona_avatar_url_def
          sql_persona_deleted_def)
qed

lemma sql_detail_shows_stored_name:
  assumes "sql_get_post rid db = Inr (pv, cvs)"
  shows "join_persona db (pv_persona_id pv) = Some p \<Longrightarrow> pv_persona_name pv = ps_name p"
    and "c \<in> set cvs \<Longrightarrow> join_persona db (cv_persona_id c) = Some p \<Longrightarrow>
         cv_persona_name c = ps_name p"
proof -
  from sql_get_post_InrD[OF assms] obtain i q where pv: "pv = sql_post_view db q"
    and cvs: "cvs = sort_by thread_order
                 (map (sql_comment_view db)
                    (filter (\<lambda>c. co_post_id c = i \<and> co_deleted_at c = None) (comments db)))"
    by blast
  show "join_persona db (pv_persona_id pv) = Some p \<Longrightarrow> pv_persona_name pv = ps_name p"
    by (simp add: pv sql_post_view_def Let_def sql_persona_name_def)
  assume "c \<in> set cvs"
  then obtain x where c: "c = sql_comment_view db x"
    unfolding cvs set_sort_by by auto
  show "join_persona db (cv_persona_id c) = Some p \<Longrightarrow> cv_persona_name c = ps_name p"
    by (simp add: c sql_comment_view_def Let_def sql_persona_name_def)
qed

lemma kv_detail_shows_stored_name:
  assumes "kv_get_post rid db = Inr (pv, cvs)"
    and "pv_persona_id pv = Some i" and "map_of (persona_keys db) i = Some p"
    and "ps_name p \<noteq> []"
  shows "pv_persona_name pv = ps_name p"
proof -
  from kv_get_post_InrD[OF assms(1)] obtain q where pv: "pv = kv_post_view db q"
    by blast
  from assms(2) have "po_persona_id q = Some i"
    by (simp add: pv kv_post_view_def Let_def)
  with assms(3,4) show ?thesis
    by (simp add: pv kv_post_view_def Let_def kv_persona_name_def)
qed

text \<open>
  C1 says that a post or comment whose persona is soft-deleted is shown under the
  placeholder name, with a \<^verbatim>\<open>null\<close> avatar. In the scenario of the specification (Alice
  posts, comments on her post and is then soft-deleted) the avatar is \<^verbatim>\<open>null\<close> and the
  flag \<open>persona_deleted\<close> is set, but the name is still Alice: in the listing and in the
  detail of the SQLite variant, for the post and for the comment, and in the detail of the
  key-value variant.
\<close>

theorem soft_deleted_persona_keeps_name:
  "map_option ps_deleted_at (join_persona sql_alice_deleted (Some 1)) = Some (Some 4000) \<and>
   map (\<lambda>r. (pv_persona_id r, pv_persona_name r, pv_persona_avatar_url r, pv_persona_deleted r))
     (sql_list_posts None sql_alice_deleted) = [(Some 1, ''Alice'', JNull, True)] \<and>
   map_sum id (\<lambda>(pv, cvs). (pv_persona_name pv, map cv_persona_name cvs))
     (sql_get_post (Num 1) sql_alice_deleted) = Inr (''Alice'', [''Alice'']) \<and>
   map_option ps_deleted_at (map_of (persona_keys kv_alice_deleted) 1000) = Some (Some 4000) \<and>
   map_sum id (\<lambda>(pv, cvs). (pv_persona_id pv, pv_persona_name pv, pv_persona_avatar_url pv,
                            pv_persona_deleted pv))
     (kv_get_post (Num 2000) kv_alice_deleted) = Inr (Some 1000, ''Alice'', JNull, True) \<and>
   ''Alice'' \<noteq> deleted_persona"
  by (simp add: handler_defs example_defs)

subsection \<open>C2: deleting a post\<close>

text \<open>The SQLite handler, in one transaction (one step here), sets \<open>deleted_at\<close> on the
  post and on all of its comments; every row stays in its table and the rows of other
  posts are untouched.\<close>

lemma find_mark_post:
  "find (\<lambda>q. po_id q = i) ps = Some p \<Longrightarrow>
   find (\<lambda>q. po_id q = i)
     (map (\<lambda>q. if po_id q = i then q\<lparr>po_deleted_at := Some ts\<rparr> else q) ps) =
     Some (p\<lparr>po_deleted_at := Some ts\<rparr>)"
  by (induction ps) (auto split: if_splits)

lemma sql_delete_post_live:
  assumes "post_by_id db i = Some p" and "po_deleted_at p = None"
  shows "sql_delete_post (Num i) ts db =
     (Inr (),
      db\<lparr>posts := map (\<lambda>q. if po_id q = i then q\<lparr>po_deleted_at := Some ts\<rparr> else q) (posts db),
         comments := map (\<lambda>c. if co_post_id c = i then c\<lparr>co_deleted_at := Some ts\<rparr> else c)
                       (comments db)\<rparr>)"
  using assms by (simp add: sql_delete_post_def)

lemma mark_posts_ids:
  "map po_id (map (\<lambda>q. if po_id q = i then q\<lparr>po_deleted_at := Some ts\<rparr> else q) xs) = map po_id xs"
  by (induction xs) simp_all

lemma mark_comments_ids:
  "map co_id (map (\<lambda>c. if co_post_id c = i then c\<lparr>co_deleted_at := Some ts\<rparr> else c) xs) =
     map co_id xs"
  by (induction xs) simp_all

lemma mark_posts_others:
  "filter (\<lambda>q. po_id q \<noteq> i)
     (map (\<lambda>q. if po_id q = i then q\<lparr>po_deleted_at := Some ts\<rparr> else q) xs) =
   filter (\<lambda>q. po_id q \<noteq> i) xs"
  by (induction xs) simp_all

lemma mark_comments_others:
  "filter (\<lambda>c. co_post_id c \<noteq> i)
     (map (\<lambda>c. if co_post_id c = i then c\<lparr>co_deleted_at := Some ts\<rparr> else c) xs) =
   filter (\<lambda>c. co_post_id c \<noteq> i) xs"
  by (induction xs) simp_all

lemma mark_posts_marked:
  assumes "q \<in> set (map (\<lambda>q. if po_id q = i then q\<lparr>po_deleted_at := Some ts\<rparr> else q) xs)"
    and "po_id q = i"
  shows "po_deleted_at q = Some ts"
proof -
  from assms(1) obtain x where x: "x \<in> set xs"
    and q: "q = (if po_id x = i then x\<lparr>po_deleted_at := Some ts\<rparr> else x)"
    by (auto simp only: set_map image_iff)
  show ?thesis
  proof (cases "po_id x = i")
    case True
    with q show ?thesis by simp
  next
    case False
    with q have "q = x" by simp
    with False assms(2) show ?thesis by simp
  qed
qed

lemma mark_comments_marked:
  assumes "c \<in> set (map (\<lambda>c. if co_post_id c = i then c\<lparr>co_deleted_at := Some ts\<rparr> else c) xs)"
    and "co_post_id c = i"
  shows "co_deleted_at c = Some ts"
proof -
  from assms(1) obtain x where x: "x \<in> set xs"
    and c: "c = (if co_post_id x = i then x\<lparr>co_deleted_at := Some ts\<rparr> else x)"
    by (auto simp only: set_map image_iff)
  show ?thesis
  proof (cases "co_post_id x = i")
    case True
    with c show ?thesis by simp
  next
    case False
    with c have "c = x" by simp
    with False assms(2) show ?thesis by simp
  qed
qed

lemma sql_post_delete_marks_comments:
  assumes h: "post_by_id sdb i = Some p \<and> po_deleted_at p = None"
  shows "\<exists>sdb'. sql_delete_post (Num i) ts sdb = (Inr (), sdb') \<and>
         map po_id (posts sdb') = map po_id (posts sdb) \<and>
         map co_id (comments sdb') = map co_id (comments sdb) \<and>
         post_by_id sdb' i = Some (p\<lparr>po_deleted_at := Some ts\<rparr>) \<and>
         (\<forall>q \<in> set (posts sdb'). po_id q = i \<longrightarrow> po_deleted_at q = Some ts) \<and>
         (\<forall>c \<in> set (comments sdb'). co_post_id c = i \<longrightarrow> co_deleted_at c = Some ts) \<and>
         filter (\<lambda>q. po_id q \<noteq> i) (posts sdb') = filter (\<lambda>q. po_id q \<noteq> i) (posts sdb) \<and>
         filter (\<lambda>c. co_post_id c \<noteq> i) (comments sdb') =
           filter (\<lambda>c. co_post_id c \<noteq> i) (comments sdb) \<and>
         personas sdb' = personas sdb"
proof -
  let ?ps = "map (\<lambda>q. if po_id q = i then q\<lparr>po_deleted_at := Some ts\<rparr> else q) (posts sdb)"
  let ?cs = "map (\<lambda>c. if co_post_id c = i then c\<lparr>co_deleted_at := Some ts\<rparr> else c)
               (comments sdb)"
  let ?db = "sdb\<lparr>posts := ?ps, comments := ?cs\<rparr>"
  show ?thesis
  proof (intro exI[of _ ?db] conjI)
    show "sql_delete_post (Num i) ts sdb = (Inr (), ?db)"
      using h by (simp add: sql_delete_post_live)
    show "map po_id (posts ?db) = map po_id (posts sdb)"
      by (simp del: map_map add: mark_posts_ids)
    show "map co_id (comments ?db) = map co_id (comments sdb)"
      by (simp del: map_map add: mark_comments_ids)
    show "post_by_id ?db i = Some (p\<lparr>po_deleted_at := Some ts\<rparr>)"
      using h by (simp add: post_by_id_def find_mark_post)
    have eq: "posts ?db = ?ps" by simp
    show "\<forall>q \<in> set (posts ?db). po_id q = i \<longrightarrow> po_deleted_at q = Some ts"
    proof (intro ballI impI)
      fix q
      assume "q \<in> set (posts ?db)" and m: "po_id q = i"
      then have "q \<in> set ?ps" by (simp only: eq)
      then show "po_deleted_at q = Some ts" using m by (rule mark_posts_marked)
    qed
    have eq: "comments ?db = ?cs" by simp
    show "\<forall>c \<in> set (comments ?db). co_post_id c = i \<longrightarrow> co_deleted_at c = Some ts"
    proof (intro ballI impI)
      fix c
      assume "c \<in> set (comments ?db)" and m: "co_post_id c = i"
      then have "c \<in> set ?cs" by (simp only: eq)
      then show "co_deleted_at c = Some ts" using m by (rule mark_comments_marked)
    qed
    show "filter (\<lambda>q. po_id q \<noteq> i) (posts ?db) = filter (\<lambda>q. po_id q \<noteq> i) (posts sdb)"
      by (simp del: map_map add: mark_posts_others)
    show "filter (\<lambda>c. co_post_id c \<noteq> i) (comments ?db) =
            filter (\<lambda>c. co_post_id c \<noteq> i) (comments sdb)"
      by (simp del: map_map add: mark_comments_others)
    show "personas ?db = personas sdb" by simp
  qed
qed

lemma sql_post_delete_on_example:
  "map (\<lambda>p. (po_id p, po_deleted_at p))
     (posts (snd (sql_delete_post (Num 1) 5000 sql_alice_posted))) = [(1, Some 5000)] \<and>
   map (\<lambda>c. (co_id c, co_post_id c, co_deleted_at c))
     (comments (snd (sql_delete_post (Num 1) 5000 sql_alice_posted))) = [(1, 1, Some 5000)]"
  by (simp add: handler_defs example_defs)

text \<open>
  C2 says that deleting a post marks the post and all of its comments with
  \<open>deleted_at\<close>, in one step. The SQLite handler does so (\<open>sql_post_delete_marks_comments\<close>
  above). The key-value handler writes the post back with \<open>deleted_at\<close> set and then goes
  through the keys that \<^verbatim>\<open>db.list\<close> answers, which are none (\<open>kv_delete_post_comments\<close>):
  on the store that holds the post of Alice and the comment on it, the post is marked and
  the comment stays as it was, with \<open>deleted_at\<close> \<^verbatim>\<open>null\<close>.
\<close>

theorem kv_post_delete_leaves_comments:
  "map (\<lambda>kv. (fst kv, po_deleted_at (snd kv))) (post_keys kv_alice_posted) = [(2000, None)] \<and>
   map (\<lambda>kv. (fst kv, co_post_id (snd kv), co_deleted_at (snd kv)))
     (comment_post_keys kv_alice_posted) = [((2000, 3500), 2000, None)] \<and>
   fst (kv_delete_post (Num 2000) 5000 kv_alice_posted) = Inr () \<and>
   map (\<lambda>kv. (fst kv, po_deleted_at (snd kv)))
     (post_keys (snd (kv_delete_post (Num 2000) 5000 kv_alice_posted))) = [(2000, Some 5000)] \<and>
   map (\<lambda>kv. (fst kv, co_post_id (snd kv), co_deleted_at (snd kv)))
     (comment_post_keys (snd (kv_delete_post (Num 2000) 5000 kv_alice_posted)))
     = [((2000, 3500), 2000, None)]"
  by (simp add: handler_defs example_defs)

subsection \<open>C3: the target of a reply\<close>

lemma sql_reply_target_checked:
  assumes "sql_create_comment pf body now db = (Inr i, db')"
    and "cb_reply_to_comment_id body = Some r"
  shows "\<exists>n parent. r = Num n \<and> comment_by_id db n = Some parent \<and>
           co_deleted_at parent = None \<and> cb_post_id body = Num (co_post_id parent)"
proof -
  from assms(1) obtain postId where pid: "cb_post_id body = Num postId"
    by (cases "cb_post_id body") (simp_all add: sql_create_comment_def Let_def)
  from assms pid obtain n where n: "r = Num n"
    by (cases r) (auto simp: sql_create_comment_def Let_def split: if_splits option.splits)
  from assms pid n show ?thesis
    by (auto simp: sql_create_comment_def Let_def split: if_splits option.splits)
qed

lemma sql_reply_across_posts_rejected:
  "map co_post_id (comments sql_two_posts) = [1] \<and>
   sql_create_comment example_js sql_cross_reply 6000 sql_two_posts =
     (Inl (400, REPLY_TARGET_INVALID), sql_two_posts)"
  by (simp add: handler_defs example_defs)

text \<open>
  C3 says that a comment whose \<open>reply_to_comment_id\<close> names a comment of another post is
  rejected with \<open>REPLY_TARGET_INVALID\<close>. The SQLite handler does so (lines 261-268,
  \<open>sql_reply_target_checked\<close> and \<open>sql_reply_across_posts_rejected\<close> above); the
  key-value handler never looks the named comment up. On the store with two posts and a
  comment on the first, a comment on the second post that replies to that comment is
  stored by the key-value variant.
\<close>

theorem kv_reply_across_posts_accepted:
  "map fst (comment_post_keys kv_two_posts) = [(2000, 3500)] \<and>
   fst (kv_create_comment example_js kv_cross_reply 6000 6000 kv_two_posts) = Inr 6000 \<and>
   map_option co_reply_to_comment_id
     (map_of (comment_post_keys
                (snd (kv_create_comment example_js kv_cross_reply 6000 6000 kv_two_posts)))
        (3600, 6000)) = Some (Some (Num 3500))"
  by (simp add: handler_defs example_defs)

subsection \<open>C4: persona names that differ in case\<close>

lemma reserved_name_nonempty: "reserved_name \<noteq> []"
  by (simp add: reserved_name_def)

lemma reserved_name_refused:
  assumes "body_str pf (pb_name pb) = reserved_name"
  shows "sql_create_persona pf pb sdb = (Inl (400, NAME_RESERVED), sdb)"
    and "kv_create_persona pf pb now kdb = (Inl (400, NAME_RESERVED), kdb)"
  using assms reserved_name_nonempty
  by (simp_all add: sql_create_persona_def kv_create_persona_def Let_def)

lemma kv_name_exists:
  assumes "body_str pf (pb_name pb) \<noteq> []" and "body_str pf (pb_name pb) \<noteq> reserved_name"
    and "name_lookup pf kdb (body_str pf (pb_name pb)) \<noteq> None"
  shows "kv_create_persona pf pb now kdb = (Inl (409, NAME_EXISTS), kdb)"
  using assms by (simp add: kv_create_persona_def Let_def)

lemma kv_create_persona_name_key:
  assumes "kv_create_persona pf pb now kdb = (Inr i, kdb')"
  shows "map_of (persona_name_keys kdb') (js_toLowerCase pf (body_str pf (pb_name pb))) = Some now"
    and "body_str pf (pb_name pb) \<noteq> []"
  using assms
  by (auto simp: kv_create_persona_def Let_def update_conv' split: if_splits)

lemma kv_case_variant_refused:
  assumes "kv_create_persona pf pb now kdb = (Inr i, kdb')" and "0 < now"
    and "js_toLowerCase pf (body_str pf (pb_name pb')) =
         js_toLowerCase pf (body_str pf (pb_name pb))"
    and "body_str pf (pb_name pb') \<noteq> []" and "body_str pf (pb_name pb') \<noteq> reserved_name"
  shows "kv_create_persona pf pb' now' kdb' = (Inl (409, NAME_EXISTS), kdb')"
proof -
  from kv_create_persona_name_key(1)[OF assms(1)] assms(3)
  have key: "map_of (persona_name_keys kdb') (js_toLowerCase pf (body_str pf (pb_name pb')))
               = Some now"
    by simp
  from key assms(2) have b: "name_lookup pf kdb' (body_str pf (pb_name pb')) \<noteq> None"
    by (simp add: name_lookup_def)
  from assms(4,5) b show ?thesis by (rule kv_name_exists)
qed

lemma sql_exact_name_exists:
  assumes "body_str pf (pb_name pb) \<in> set (map ps_name (personas sdb))"
    and "body_str pf (pb_name pb) \<noteq> []" and "body_str pf (pb_name pb) \<noteq> reserved_name"
    and "body_str pf (pb_avatar_url pb) = [] \<or> isProbablyHttpUrl pf (body_str pf (pb_avatar_url pb))"
  shows "sql_create_persona pf pb sdb = (Inl (409, NAME_EXISTS), sdb)"
  using assms by (auto simp: sql_create_persona_def Let_def)

text \<open>
  C4 says that creating a persona whose name equals the name of a live persona up to case
  fails with \<open>NAME_EXISTS\<close>, and that the reserved name fails with \<open>NAME_RESERVED\<close>.
  The reserved name is refused by both variants (\<open>reserved_name_refused\<close>). The key-value
  handler looks the lower-cased name up and refuses a name that differs in case only
  (\<open>kv_case_variant_refused\<close>); in the SQLite variant the only check is the
  \<^verbatim>\<open>UNIQUE\<close> constraint of the column, which compares byte by byte
  (\<open>sql_exact_name_exists\<close>), so that "alice" is stored next to "Alice", while the name
  lookups of the same variant compare with \<^verbatim>\<open>COLLATE NOCASE\<close>.
\<close>

theorem sql_persona_name_case_variant_accepted:
  "map ps_name (personas sql_alice) = [''Alice''] \<and>
   map ps_deleted_at (personas sql_alice) = [None] \<and>
   nocase_eq (body_str example_js (pb_name alice_lower_body)) ''Alice'' \<and>
   fst (sql_create_persona example_js alice_lower_body sql_alice) = Inr 2 \<and>
   map ps_name (personas (snd (sql_create_persona example_js alice_lower_body sql_alice)))
     = [''Alice'', ''alice''] \<and>
   kv_create_persona example_js alice_lower_body 2000 kv_alice =
     (Inl (409, NAME_EXISTS), kv_alice)"
  by (simp add: handler_defs example_defs)

subsection \<open>C5: reply counts and the order of the post listing\<close>







subsection \<open>C6: deleting a persona twice\<close>

lemma sql_persona_delete_idempotent:
  assumes "sql_delete_persona rid t1 db = (Inr (), db')"
  shows "sql_delete_persona rid t2 db' = (Inr (), db')"
proof -
  from assms obtain i p where i: "rid = Num i" and p: "persona_by_id db i = Some p"
    by (auto simp: sql_delete_persona_def split: num.splits option.splits)
  show ?thesis
  proof (cases "ps_deleted_at p")
    case (Some t)
    with assms i p have "db' = db" by (simp add: sql_delete_persona_def)
    with Some i p show ?thesis by (simp add: sql_delete_persona_def)
  next
    case None
    let ?ps = "map (\<lambda>per. if ps_id per = i then per\<lparr>ps_deleted_at := Some t1\<rparr> else per)
                 (personas db)"
    from None assms i p have db': "db' = db\<lparr>personas := ?ps\<rparr>"
      by (simp add: sql_delete_persona_def)
    have "find (\<lambda>per. ps_id per = i) xs = Some p \<Longrightarrow>
          find (\<lambda>per. ps_id per = i)
            (map (\<lambda>per. if ps_id per = i then per\<lparr>ps_deleted_at := Some t1\<rparr> else per) xs) =
            Some (p\<lparr>ps_deleted_at := Some t1\<rparr>)" for xs
      by (induction xs) (auto split: if_splits)
    with p have "persona_by_id db' i = Some (p\<lparr>ps_deleted_at := Some t1\<rparr>)"
      by (simp add: db' persona_by_id_def)
    with i show ?thesis by (simp add: sql_delete_persona_def)
  qed
qed

text \<open>
  C6 says that deleting a persona a second time succeeds without effect. The SQLite handler
  returns early for a deleted persona (line 109, and \<open>sql_persona_delete_idempotent\<close>
  above); the key-value handler has no such guard: the second call stamps \<open>deleted_at\<close>
  anew and deletes the name key again, also when that key meanwhile belongs to a new live
  persona of the same name, whose posts are then refused with \<open>PERSONA_NOT_FOUND\<close>.
\<close>

theorem kv_persona_delete_not_idempotent:
  "fst (kv_delete_persona example_js (Num 1000) 4000 kv_alice) = Inr () \<and>
   fst (kv_delete_persona example_js (Num 1000) 5000
          (snd (kv_delete_persona example_js (Num 1000) 4000 kv_alice)))
     = Inr () \<and>
   map (ps_deleted_at \<circ> snd)
     (persona_keys (snd (kv_delete_persona example_js (Num 1000) 4000 kv_alice)))
     = [Some 4000] \<and>
   map (ps_deleted_at \<circ> snd)
     (persona_keys (snd (kv_delete_persona example_js (Num 1000) 5000
                           (snd (kv_delete_persona example_js (Num 1000) 4000 kv_alice)))))
     = [Some 5000] \<and>
   map (ps_deleted_at \<circ> snd) (persona_keys kv_alice_again) = [Some 4000, None] \<and>
   persona_name_keys kv_alice_again = [(''alice'', 4500)] \<and>
   fst (kv_delete_persona example_js (Num 1000) 5000 kv_alice_again) = Inr () \<and>
   persona_name_keys (snd (kv_delete_persona example_js (Num 1000) 5000 kv_alice_again)) = [] \<and>
   fst (kv_create_post example_js hi_body 6000 6000
          (snd (kv_delete_persona example_js (Num 1000) 5000 kv_alice_again)))
     = Inl (400, PERSONA_NOT_FOUND)"
  by (simp add: handler_defs example_defs)

subsection \<open>C7: the comments of a post\<close>

text \<open>Both variants answer \<open>NOT_FOUND\<close> for a post that is absent or deleted. The SQLite
  query returns the comments of the post that are not deleted, ordered by \<open>created_at\<close>
  and then by \<open>id\<close>.\<close>

lemma sql_get_post_thread:
  assumes "sql_get_post rid db = Inr (pv, cvs)"
  shows "\<exists>i. rid = Num i \<and> sorted_wrt thread_order cvs \<and>
           mset (map cv_id cvs) =
             mset (map co_id (filter (\<lambda>c. co_post_id c = i \<and> co_deleted_at c = None)
                                (comments db)))"
proof -
  from sql_get_post_InrD[OF assms] obtain i where i: "rid = Num i"
    and cvs: "cvs = sort_by thread_order
                 (map (sql_comment_view db)
                    (filter (\<lambda>c. co_post_id c = i \<and> co_deleted_at c = None) (comments db)))"
    by blast
  have s: "sorted_wrt thread_order cvs"
    unfolding cvs using thread_order_total thread_order_trans by (rule sorted_sort_by)
  have "mset (map cv_id (sort_by le (map (sql_comment_view db) xs))) = mset (map co_id xs)"
    for le xs
  proof -
    have "mset (map cv_id (sort_by le (map (sql_comment_view db) xs))) =
          image_mset cv_id (mset (sort_by le (map (sql_comment_view db) xs)))" by simp
    also have "\<dots> = image_mset cv_id (mset (map (sql_comment_view db) xs))"
      by (simp only: mset_sort_by)
    also have "\<dots> = mset (map co_id xs)"
      by (simp add: multiset.map_comp comp_def sql_comment_view_def Let_def)
    finally show ?thesis .
  qed
  with i s cvs show ?thesis by simp
qed

lemma get_post_not_found:
  "post_by_id sdb i = None \<Longrightarrow> sql_get_post (Num i) sdb = Inl (404, NOT_FOUND)"
  "post_by_id sdb i = Some p \<Longrightarrow> po_deleted_at p \<noteq> None \<Longrightarrow>
     sql_get_post (Num i) sdb = Inl (404, NOT_FOUND)"
  "map_of (post_keys kdb) i = None \<Longrightarrow> kv_get_post (Num i) kdb = Inl (404, NOT_FOUND)"
  "map_of (post_keys kdb) i = Some p \<Longrightarrow> po_deleted_at p \<noteq> None \<Longrightarrow>
     kv_get_post (Num i) kdb = Inl (404, NOT_FOUND)"
  by (simp_all add: sql_get_post_def kv_get_post_def)

lemma sql_detail_on_example:
  "map (\<lambda>c. (co_id c, co_post_id c, co_deleted_at c)) (comments sql_alice_posted)
     = [(1, 1, None)] \<and>
   map_sum id (\<lambda>(pv, cvs). (pv_id pv, map cv_id cvs)) (sql_get_post (Num 1) sql_alice_posted)
     = Inr (1, [1])"
  by (simp add: handler_defs example_defs)

text \<open>
  C7 says that the detail read fails with \<open>NOT_FOUND\<close> for an absent or deleted post and
  otherwise returns the comments of the post that are not deleted, sorted by
  \<open>created_at\<close>, ties broken by \<open>id\<close> ascending. The SQLite handler does so
  (\<open>get_post_not_found\<close>, \<open>sql_get_post_thread\<close> and \<open>sql_detail_on_example\<close> above). The
  key-value handler reads the comments under the keys that \<^verbatim>\<open>db.list\<close> answers, which
  are none (\<open>kv_get_post_InrD\<close>): on the store that holds the post of Alice and the
  comment on it, which is not deleted, the detail of the post has no comment. (The
  comparator of that handler, line 414, compares \<open>created_at\<close> only.)
\<close>

theorem kv_detail_omits_comments:
  "map (\<lambda>kv. (fst kv, po_deleted_at (snd kv))) (post_keys kv_alice_posted) = [(2000, None)] \<and>
   map (\<lambda>kv. (fst kv, co_post_id (snd kv), co_deleted_at (snd kv)))
     (comment_post_keys kv_alice_posted) = [((2000, 3500), 2000, None)] \<and>
   map_sum id (\<lambda>(pv, cvs). (pv_id pv, map cv_id cvs)) (kv_get_post (Num 2000) kv_alice_posted)
     = Inr (2000, [])"
  by (simp add: handler_defs example_defs)

subsection \<open>C8: the two variants against each other\<close>











subsection \<open>C9: identifiers\<close>

lemma sql_ids_fresh:
  "sql_create_persona pf pb db = (Inr i, db') \<Longrightarrow> i \<notin> set (map ps_id (personas db))"
  "sql_create_post pf tb now db = (Inr j, db'') \<Longrightarrow> j \<notin> set (map po_id (posts db))"
  "sql_create_comment pf cb now db = (Inr k, db''') \<Longrightarrow> k \<notin> set (map co_id (comments db))"
proof -
  have fresh: "\<And>seq ids. next_rowid seq ids \<notin> set ids"
    using next_rowid_fresh by blast
  show "sql_create_persona pf pb db = (Inr i, db') \<Longrightarrow> i \<notin> set (map ps_id (personas db))"
    using fresh[of "seq_personas db" "map ps_id (personas db)"]
    by (auto simp: sql_create_persona_def Let_def split: if_splits)
  show "sql_create_post pf tb now db = (Inr j, db'') \<Longrightarrow> j \<notin> set (map po_id (posts db))"
    using fresh[of "seq_posts db" "map po_id (posts db)"]
    by (auto simp: sql_create_post_def Let_def split: if_splits option.splits)
  show "sql_create_comment pf cb now db = (Inr k, db''') \<Longrightarrow> k \<notin> set (map co_id (comments db))"
    using fresh[of "seq_comments db" "map co_id (comments db)"]
    by (auto simp: sql_create_comment_def Let_def split: if_splits option.splits num.splits)
qed

text \<open>
  C9 says that no two successful creations yield the same identifier. The SQLite tables
  assign \<^verbatim>\<open>AUTOINCREMENT\<close> keys (\<open>sql_ids_fresh\<close> above); the key-value handlers
  take \<^verbatim>\<open>Date.now()\<close>, so two creations in the same millisecond get the same
  identifier and the second overwrites the first under the same key.
\<close>

theorem kv_ids_collide:
  "fst (kv_create_persona example_js alice_body 1000 kv_empty) = Inr 1000 \<and>
   fst (kv_create_persona example_js carol_body 1000 kv_alice) = Inr 1000 \<and>
   map (ps_name \<circ> snd)
     (persona_keys (snd (kv_create_persona example_js carol_body 1000 kv_alice)))
     = [''Carol''] \<and>
   fst (kv_create_post example_js hi_body 2000 3000 kv_alice) = Inr 2000 \<and>
   fst (kv_create_post example_js hi_body 2000 3000
          (snd (kv_create_post example_js hi_body 2000 3000 kv_alice))) = Inr 2000 \<and>
   fst (kv_create_comment example_js kv_hey 3500 3500
          (snd (kv_create_post example_js hi_body 2000 3000 kv_alice))) = Inr 3500 \<and>
   fst (kv_create_comment example_js kv_hey 3500 3500 kv_alice_posted) = Inr 3500 \<and>
   map fst (comment_post_keys (snd (kv_create_comment example_js kv_hey 3500 3500
                                      kv_alice_posted)))
     = [(2000, 3500)]"
  by (simp add: handler_defs example_defs)

subsection \<open>C10: optional fields that trim to nothing\<close>

lemma sql_create_persona_stored:
  assumes "sql_create_persona pf pb db = (Inr i, db')"
  shows "persona_by_id db' i =
           Some \<lparr>ps_id = i, ps_name = body_str pf (pb_name pb),
                 ps_avatar_url = or_null (body_str pf (pb_avatar_url pb)),
                 ps_bio = or_null (body_str pf (pb_bio pb)),
                 ps_creator = or_null (body_str pf (pb_creator pb)), ps_deleted_at = None\<rparr>"
proof -
  let ?i = "next_rowid (seq_personas db) (map ps_id (personas db))"
  have fresh: "\<forall>x\<in>set (personas db). \<not> ps_id x = ?i"
    using next_rowid_fresh[of _ "map ps_id (personas db)" "seq_personas db"] by fastforce
  from assms have "i = ?i"
    by (auto simp: sql_create_persona_def Let_def split: if_splits)
  moreover from assms have "personas db' = personas db @ [\<lparr>ps_id = ?i, ps_name = body_str pf (pb_name pb),
                 ps_avatar_url = or_null (body_str pf (pb_avatar_url pb)),
                 ps_bio = or_null (body_str pf (pb_bio pb)),
                 ps_creator = or_null (body_str pf (pb_creator pb)), ps_deleted_at = None\<rparr>]"
    by (auto simp: sql_create_persona_def Let_def split: if_splits)
  ultimately show ?thesis
    using fresh by (simp add: persona_by_id_def find_snoc_fresh)
qed

lemma kv_create_persona_stored:
  assumes "kv_create_persona pf pb now db = (Inr i, db')"
  shows "map_of (persona_keys db') i =
           Some \<lparr>ps_id = i, ps_name = body_str pf (pb_name pb),
                 ps_avatar_url = or_null (body_str pf (pb_avatar_url pb)),
                 ps_bio = or_null (body_str pf (pb_bio pb)),
                 ps_creator = or_null (body_str pf (pb_creator pb)), ps_deleted_at = None\<rparr>"
  using assms
  by (auto simp: kv_create_persona_def Let_def update_conv' split: if_splits)

lemma sql_create_post_stored:
  assumes "sql_create_post pf tb now db = (Inr i, db')"
  shows "\<exists>p. post_by_id db' i = Some p \<and> po_image_url p = or_null (body_str pf (tb_image_url tb))
            \<and> po_content p = body_str pf (tb_content tb) \<and> po_created_at p = now
            \<and> po_deleted_at p = None"
proof -
  let ?i = "next_rowid (seq_posts db) (map po_id (posts db))"
  have fresh: "\<forall>x\<in>set (posts db). \<not> po_id x = ?i"
    using next_rowid_fresh[of _ "map po_id (posts db)" "seq_posts db"] by fastforce
  from assms have "\<exists>pid. i = ?i \<and> posts db' = posts db @
     [\<lparr>po_id = ?i, po_persona_id = Some pid, po_content = body_str pf (tb_content tb),
       po_image_url = or_null (body_str pf (tb_image_url tb)), po_created_at = now,
       po_deleted_at = None\<rparr>]"
    by (auto simp: sql_create_post_def Let_def split: if_splits option.splits)
  then show ?thesis
    using fresh by (auto simp: post_by_id_def find_snoc_fresh)
qed

lemma kv_create_post_stored:
  assumes "kv_create_post pf tb now ts db = (Inr i, db')"
  shows "\<exists>p. map_of (post_keys db') i = Some p \<and> po_image_url p = or_null (body_str pf (tb_image_url tb))
            \<and> po_content p = body_str pf (tb_content tb) \<and> po_created_at p = ts
            \<and> po_deleted_at p = None"
  using assms
  by (auto simp: kv_create_post_def Let_def update_conv' split: if_splits option.splits)

lemma sql_create_persona_blank_avatar:
  "body_str pf (pb_avatar_url pb) = [] \<Longrightarrow>
   error_of (fst (sql_create_persona pf pb db)) \<noteq> Some AVATAR_URL_INVALID"
  by (simp add: sql_create_persona_def Let_def error_of_def)

lemma kv_create_persona_blank_avatar:
  "body_str pf (pb_avatar_url pb) = [] \<Longrightarrow>
   error_of (fst (kv_create_persona pf pb now db)) \<noteq> Some AVATAR_URL_INVALID"
  by (simp add: kv_create_persona_def Let_def error_of_def or_null_def)

lemma sql_create_post_blank_image:
  "body_str pf (tb_image_url tb) = [] \<Longrightarrow>
   error_of (fst (sql_create_post pf tb now db)) \<noteq> Some IMAGE_URL_INVALID"
  by (simp add: sql_create_post_def Let_def error_of_def split: option.splits)

lemma kv_create_post_blank_image:
  "body_str pf (tb_image_url tb) = [] \<Longrightarrow>
   error_of (fst (kv_create_post pf tb now ts db)) \<noteq> Some IMAGE_URL_INVALID"
  by (simp add: kv_create_post_def Let_def error_of_def split: option.splits)

text \<open>
  C10. In persona and post creation of both variants, whatever \<^verbatim>\<open>trim\<close> strips: an
  optional field (\<open>avatar_url\<close>, \<open>bio\<close>, \<open>creator\<close>, \<open>image_url\<close>) that trims to the
  empty string is stored as \<^verbatim>\<open>null\<close>, no optional field is ever stored as the empty
  string, and an \<open>avatar_url\<close> or \<open>image_url\<close> that trims to the empty string never
  answers \<open>AVATAR_URL_INVALID\<close> or \<open>IMAGE_URL_INVALID\<close>. The fields that trim to the
  empty string are those made of white space only and, \<^verbatim>\<open>trim\<close> leaving the empty string
  as it is, the absent and the empty ones (an absent field is read as \<^verbatim>\<open>""\<close>).
\<close>

theorem blank_optional_fields_are_null:
  "(js_trim pf [] = [] \<longrightarrow> body_str pf None = [] \<and> body_str pf (Some []) = []) \<and>
   (body_str pf (pb_avatar_url pb) = [] \<longrightarrow>
      error_of (fst (sql_create_persona pf pb sdb)) \<noteq> Some AVATAR_URL_INVALID \<and>
      error_of (fst (kv_create_persona pf pb now kdb)) \<noteq> Some AVATAR_URL_INVALID) \<and>
   (body_str pf (tb_image_url tb) = [] \<longrightarrow>
      error_of (fst (sql_create_post pf tb ts sdb)) \<noteq> Some IMAGE_URL_INVALID \<and>
      error_of (fst (kv_create_post pf tb now ts kdb)) \<noteq> Some IMAGE_URL_INVALID) \<and>
   (sql_create_persona pf pb sdb = (Inr i, sdb') \<longrightarrow>
      (\<exists>per. persona_by_id sdb' i = Some per \<and>
         (body_str pf (pb_avatar_url pb) = [] \<longrightarrow> ps_avatar_url per = None) \<and>
         (body_str pf (pb_bio pb) = [] \<longrightarrow> ps_bio per = None) \<and>
         (body_str pf (pb_creator pb) = [] \<longrightarrow> ps_creator per = None) \<and>
         ps_avatar_url per \<noteq> Some [] \<and> ps_bio per \<noteq> Some [] \<and> ps_creator per \<noteq> Some [])) \<and>
   (kv_create_persona pf pb now kdb = (Inr j, kdb') \<longrightarrow>
      (\<exists>per. map_of (persona_keys kdb') j = Some per \<and>
         (body_str pf (pb_avatar_url pb) = [] \<longrightarrow> ps_avatar_url per = None) \<and>
         (body_str pf (pb_bio pb) = [] \<longrightarrow> ps_bio per = None) \<and>
         (body_str pf (pb_creator pb) = [] \<longrightarrow> ps_creator per = None) \<and>
         ps_avatar_url per \<noteq> Some [] \<and> ps_bio per \<noteq> Some [] \<and> ps_creator per \<noteq> Some [])) \<and>
   (sql_create_post pf tb ts sdb = (Inr k, sdb'') \<longrightarrow>
      (\<exists>p. post_by_id sdb'' k = Some p \<and>
         (body_str pf (tb_image_url tb) = [] \<longrightarrow> po_image_url p = None) \<and>
         po_image_url p \<noteq> Some [])) \<and>
   (kv_create_post pf tb now ts kdb = (Inr l, kdb'') \<longrightarrow>
      (\<exists>p. map_of (post_keys kdb'') l = Some p \<and>
         (body_str pf (tb_image_url tb) = [] \<longrightarrow> po_image_url p = None) \<and>
         po_image_url p \<noteq> Some []))"
proof -
  have null: "\<And>s. s = [] \<Longrightarrow> or_null s = None"
    by (simp add: or_null_def)
  have nonempty: "\<And>s. or_null s \<noteq> Some []"
    by (simp add: or_null_def)
  have z: "js_trim pf [] = [] \<longrightarrow> body_str pf None = [] \<and> body_str pf (Some []) = []"
    by (simp add: body_str_def)
  have a: "body_str pf (pb_avatar_url pb) = [] \<longrightarrow>
      error_of (fst (sql_create_persona pf pb sdb)) \<noteq> Some AVATAR_URL_INVALID \<and>
      error_of (fst (kv_create_persona pf pb now kdb)) \<noteq> Some AVATAR_URL_INVALID"
    using sql_create_persona_blank_avatar kv_create_persona_blank_avatar by blast
  have b: "body_str pf (tb_image_url tb) = [] \<longrightarrow>
      error_of (fst (sql_create_post pf tb ts sdb)) \<noteq> Some IMAGE_URL_INVALID \<and>
      error_of (fst (kv_create_post pf tb now ts kdb)) \<noteq> Some IMAGE_URL_INVALID"
    using sql_create_post_blank_image kv_create_post_blank_image by blast
  have c: "sql_create_persona pf pb sdb = (Inr i, sdb') \<longrightarrow>
      (\<exists>per. persona_by_id sdb' i = Some per \<and>
         (body_str pf (pb_avatar_url pb) = [] \<longrightarrow> ps_avatar_url per = None) \<and>
         (body_str pf (pb_bio pb) = [] \<longrightarrow> ps_bio per = None) \<and>
         (body_str pf (pb_creator pb) = [] \<longrightarrow> ps_creator per = None) \<and>
         ps_avatar_url per \<noteq> Some [] \<and> ps_bio per \<noteq> Some [] \<and> ps_creator per \<noteq> Some [])"
    by (auto dest!: sql_create_persona_stored simp: null nonempty)
  have d: "kv_create_persona pf pb now kdb = (Inr j, kdb') \<longrightarrow>
      (\<exists>per. map_of (persona_keys kdb') j = Some per \<and>
         (body_str pf (pb_avatar_url pb) = [] \<longrightarrow> ps_avatar_url per = None) \<and>
         (body_str pf (pb_bio pb) = [] \<longrightarrow> ps_bio per = None) \<and>
         (body_str pf (pb_creator pb) = [] \<longrightarrow> ps_creator per = None) \<and>
         ps_avatar_url per \<noteq> Some [] \<and> ps_bio per \<noteq> Some [] \<and> ps_creator per \<noteq> Some [])"
    by (auto dest!: kv_create_persona_stored simp: null nonempty)
  have e: "sql_create_post pf tb ts sdb = (Inr k, sdb'') \<longrightarrow>
      (\<exists>p. post_by_id sdb'' k = Some p \<and>
         (body_str pf (tb_image_url tb) = [] \<longrightarrow> po_image_url p = None) \<and>
         po_image_url p \<noteq> Some [])"
    by (auto dest!: sql_create_post_stored simp: null nonempty)
  have f: "kv_create_post pf tb now ts kdb = (Inr l, kdb'') \<longrightarrow>
      (\<exists>p. map_of (post_keys kdb'') l = Some p \<and>
         (body_str pf (tb_image_url tb) = [] \<longrightarrow> po_image_url p = None) \<and>
         po_image_url p \<noteq> Some [])"
    by (auto dest!: kv_create_post_stored simp: null nonempty)
  from z a b c d e f show ?thesis by blast
qed

text \<open>The theorem at concrete requests: a persona whose \<open>avatar_url\<close> is two spaces, whose
  \<open>bio\<close> is empty and whose \<open>creator\<close> is absent, and a post whose \<open>image_url\<close> is one
  space, on the stores that hold the persona Alice.\<close>

theorem blank_optional_fields_are_null_witness:
  "pb_avatar_url bob_body = Some ''  '' \<and> pb_bio bob_body = Some [] \<and>
   pb_creator bob_body = None \<and> tb_image_url hi_body = Some '' '' \<and>
   body_str example_js None = [] \<and> body_str example_js (Some []) = [] \<and>
   error_of (fst (sql_create_persona example_js bob_body sql_alice))
     \<noteq> Some AVATAR_URL_INVALID \<and>
   error_of (fst (kv_create_persona example_js bob_body 2000 kv_alice))
     \<noteq> Some AVATAR_URL_INVALID \<and>
   error_of (fst (sql_create_post example_js hi_body 3000 sql_alice))
     \<noteq> Some IMAGE_URL_INVALID \<and>
   error_of (fst (kv_create_post example_js hi_body 2000 3000 kv_alice))
     \<noteq> Some IMAGE_URL_INVALID \<and>
   (\<exists>per. persona_by_id (snd (sql_create_persona example_js bob_body sql_alice)) 2
            = Some per \<and>
          ps_avatar_url per = None \<and> ps_bio per = None \<and> ps_creator per = None) \<and>
   (\<exists>per. map_of (persona_keys
                    (snd (kv_create_persona example_js bob_body 2000 kv_alice))) 2000
            = Some per \<and>
          ps_avatar_url per = None \<and> ps_bio per = None \<and> ps_creator per = None) \<and>
   (\<exists>p. post_by_id (snd (sql_create_post example_js hi_body 3000 sql_alice)) 1
            = Some p \<and> po_image_url p = None) \<and>
   (\<exists>p. map_of (post_keys
                  (snd (kv_create_post example_js hi_body 2000 3000 kv_alice))) 2000
            = Some p \<and> po_image_url p = None)"
proof -
  have h0: "pb_avatar_url bob_body = Some ''  ''" "pb_bio bob_body = Some []"
    "pb_creator bob_body = None" "tb_image_url hi_body = Some '' ''"
    "js_trim example_js [] = []"
    by (simp_all add: example_defs)
  have h1: "body_str example_js (pb_avatar_url bob_body) = []"
    "body_str example_js (pb_bio bob_body) = []"
    "body_str example_js (pb_creator bob_body) = []"
    "body_str example_js (tb_image_url hi_body) = []"
    by (simp_all add: handler_defs example_defs)
  have h2: "sql_create_persona example_js bob_body sql_alice =
              (Inr 2, snd (sql_create_persona example_js bob_body sql_alice))"
    by (simp add: handler_defs example_defs)
  have h3: "kv_create_persona example_js bob_body 2000 kv_alice =
              (Inr 2000, snd (kv_create_persona example_js bob_body 2000 kv_alice))"
    by (simp add: handler_defs example_defs)
  have h4: "sql_create_post example_js hi_body 3000 sql_alice =
              (Inr 1, snd (sql_create_post example_js hi_body 3000 sql_alice))"
    by (simp add: handler_defs example_defs)
  have h5: "kv_create_post example_js hi_body 2000 3000 kv_alice =
              (Inr 2000, snd (kv_create_post example_js hi_body 2000 3000 kv_alice))"
    by (simp add: handler_defs example_defs)
  note t = blank_optional_fields_are_null [of example_js bob_body sql_alice 2000
        kv_alice hi_body 3000 2 "snd (sql_create_persona example_js bob_body sql_alice)"
        2000 "snd (kv_create_persona example_js bob_body 2000 kv_alice)"
        1 "snd (sql_create_post example_js hi_body 3000 sql_alice)"
        2000 "snd (kv_create_post example_js hi_body 2000 3000 kv_alice)"]
  from t h0(5) h1 h2 h3 h4 h5 have r: "body_str example_js None = [] \<and>
   body_str example_js (Some []) = [] \<and>
   error_of (fst (sql_create_persona example_js bob_body sql_alice))
     \<noteq> Some AVATAR_URL_INVALID \<and>
   error_of (fst (kv_create_persona example_js bob_body 2000 kv_alice))
     \<noteq> Some AVATAR_URL_INVALID \<and>
   error_of (fst (sql_create_post example_js hi_body 3000 sql_alice))
     \<noteq> Some IMAGE_URL_INVALID \<and>
   error_of (fst (kv_create_post example_js hi_body 2000 3000 kv_alice))
     \<noteq> Some IMAGE_URL_INVALID \<and>
   (\<exists>per. persona_by_id (snd (sql_create_persona example_js bob_body sql_alice)) 2
            = Some per \<and>
          ps_avatar_url per = None \<and> ps_bio per = None \<and> ps_creator per = None) \<and>
   (\<exists>per. map_of (persona_keys
                    (snd (kv_create_persona example_js bob_body 2000 kv_alice))) 2000
            = Some per \<and>
          ps_avatar_url per = None \<and> ps_bio per = None \<and> ps_creator per = None) \<and>
   (\<exists>p. post_by_id (snd (sql_create_post example_js hi_body 3000 sql_alice)) 1
            = Some p \<and> po_image_url p = None) \<and>
   (\<exists>p. map_of (post_keys
                  (snd (kv_create_post example_js hi_body 2000 3000 kv_alice))) 2000
            = Some p \<and> po_image_url p = None)"
    by blast
  from h0(1-4) r show ?thesis by blast
qed

end
